theory Spec2Isabelle
  imports Complex_Main "HOL-Library.List_Lexorder" "HOL-Library.Char_ord"
begin

section \<open>Cell values\<close>

text \<open>
  A cell of a pandas frame of dtype float64. The model keeps the special values of
  IEEE arithmetic that the code relies on (the missing marker NaN, which \<open>fillna\<close>
  replaces, and the two infinities, which division by zero produces and \<open>fillna\<close>
  leaves alone) and computes on finite values with exact real arithmetic: rounding,
  overflow and the sign of zero are not modelled.
\<close>

datatype fl = Fin real | PInf | NInf | NaN

fun fl_neg :: "fl \<Rightarrow> fl" where
  "fl_neg (Fin a) = Fin (- a)"
| "fl_neg PInf = NInf"
| "fl_neg NInf = PInf"
| "fl_neg NaN = NaN"

fun fl_add :: "fl \<Rightarrow> fl \<Rightarrow> fl" where
  "fl_add (Fin a) (Fin b) = Fin (a + b)"
| "fl_add (Fin a) PInf = PInf"
| "fl_add (Fin a) NInf = NInf"
| "fl_add (Fin a) NaN = NaN"
| "fl_add PInf (Fin b) = PInf"
| "fl_add PInf PInf = PInf"
| "fl_add PInf NInf = NaN"
| "fl_add PInf NaN = NaN"
| "fl_add NInf (Fin b) = NInf"
| "fl_add NInf PInf = NaN"
| "fl_add NInf NInf = NInf"
| "fl_add NInf NaN = NaN"
| "fl_add NaN y = NaN"

definition fl_sub :: "fl \<Rightarrow> fl \<Rightarrow> fl" where
  "fl_sub x y = fl_add x (fl_neg y)"

text \<open>An infinity of the sign of \<open>s\<close>; \<open>0 * inf\<close> is NaN.\<close>

definition signed_inf :: "real \<Rightarrow> fl" where
  "signed_inf s = (if 0 < s then PInf else if s < 0 then NInf else NaN)"

fun fl_mul :: "fl \<Rightarrow> fl \<Rightarrow> fl" where
  "fl_mul (Fin a) (Fin b) = Fin (a * b)"
| "fl_mul (Fin a) PInf = signed_inf a"
| "fl_mul (Fin a) NInf = signed_inf (- a)"
| "fl_mul (Fin a) NaN = NaN"
| "fl_mul PInf (Fin b) = signed_inf b"
| "fl_mul PInf PInf = PInf"
| "fl_mul PInf NInf = NInf"
| "fl_mul PInf NaN = NaN"
| "fl_mul NInf (Fin b) = signed_inf (- b)"
| "fl_mul NInf PInf = NInf"
| "fl_mul NInf NInf = PInf"
| "fl_mul NInf NaN = NaN"
| "fl_mul NaN y = NaN"

text \<open>
  numpy's float division: \<open>x / 0\<close> is an infinity of the sign of \<open>x\<close>, \<open>0 / 0\<close> and
  \<open>inf / inf\<close> are NaN, a finite value over an infinity is 0. No exception is raised.
\<close>

fun fl_div :: "fl \<Rightarrow> fl \<Rightarrow> fl" where
  "fl_div (Fin a) (Fin b) = (if b = 0 then signed_inf a else Fin (a / b))"
| "fl_div (Fin a) PInf = Fin 0"
| "fl_div (Fin a) NInf = Fin 0"
| "fl_div (Fin a) NaN = NaN"
| "fl_div PInf (Fin b) = (if b < 0 then NInf else PInf)"
| "fl_div PInf PInf = NaN"
| "fl_div PInf NInf = NaN"
| "fl_div PInf NaN = NaN"
| "fl_div NInf (Fin b) = (if b < 0 then PInf else NInf)"
| "fl_div NInf PInf = NaN"
| "fl_div NInf NInf = NaN"
| "fl_div NInf NaN = NaN"
| "fl_div NaN y = NaN"

fun fl_abs :: "fl \<Rightarrow> fl" where
  "fl_abs (Fin a) = Fin \<bar>a\<bar>"
| "fl_abs PInf = PInf"
| "fl_abs NInf = PInf"
| "fl_abs NaN = NaN"

text \<open>Comparisons: every ordered comparison with NaN is false, \<open>!=\<close> with NaN is true.\<close>

fun fl_lt :: "fl \<Rightarrow> fl \<Rightarrow> bool" where
  "fl_lt (Fin a) (Fin b) = (a < b)"
| "fl_lt (Fin a) PInf = True"
| "fl_lt (Fin a) NInf = False"
| "fl_lt (Fin a) NaN = False"
| "fl_lt PInf y = False"
| "fl_lt NInf (Fin b) = True"
| "fl_lt NInf PInf = True"
| "fl_lt NInf NInf = False"
| "fl_lt NInf NaN = False"
| "fl_lt NaN y = False"

definition fl_gt :: "fl \<Rightarrow> fl \<Rightarrow> bool" where
  "fl_gt x y = fl_lt y x"

definition fl_ne :: "fl \<Rightarrow> fl \<Rightarrow> bool" where
  "fl_ne x y = (x = NaN \<or> y = NaN \<or> x \<noteq> y)"

fun is_fin :: "fl \<Rightarrow> bool" where
  "is_fin (Fin a) = True"
| "is_fin PInf = False"
| "is_fin NInf = False"
| "is_fin NaN = False"

text \<open>\<open>fillna(0)\<close> on one cell.\<close>

definition fillna0 :: "fl \<Rightarrow> fl" where
  "fillna0 x = (if x = NaN then Fin 0 else x)"

text \<open>
  \<open>sum\<close> with pandas' default \<open>skipna=True\<close>: missing cells count as 0, and the sum of
  no cell at all is 0.
\<close>

definition nansum :: "fl list \<Rightarrow> fl" where
  "nansum xs = foldr fl_add (map fillna0 xs) (Fin 0)"

section \<open>Frames and series\<close>

text \<open>
  Dates are day numbers, asset identifiers are strings. A \<open>DataFrame\<close> is its row
  labels, its column labels and its rows of cells; a \<open>Series\<close> is its labels and
  its cells. A frame is well formed when it has one row per label and one cell per
  column in every row.
\<close>

type_synonym date = nat
type_synonym asset = string

record dataframe =
  index :: "date list"
  columns :: "asset list"
  vals :: "fl list list"

record series =
  s_index :: "date list"
  s_vals :: "fl list"

definition wf_frame :: "dataframe \<Rightarrow> bool" where
  "wf_frame df = (length (vals df) = length (index df) \<and>
     list_all (\<lambda>r. length r = length (columns df)) (vals df))"

datatype error = IndexError | KeyError | ValueError | StrategyFailure | InputShapeError

text \<open>
  \<open>InputShapeError\<close> is the error the specification names for malformed input. No
  path of the source raises it; it is in the type so that this can be stated.
\<close>

subsection \<open>Element-wise operations\<close>

definition df_map :: "(fl \<Rightarrow> fl) \<Rightarrow> dataframe \<Rightarrow> dataframe" where
  "df_map f df = df\<lparr>vals := map (map f) (vals df)\<rparr>"

definition df_fillna0 :: "dataframe \<Rightarrow> dataframe" where
  "df_fillna0 df = df_map fillna0 df"

definition df_abs :: "dataframe \<Rightarrow> dataframe" where
  "df_abs df = df_map fl_abs df"

definition s_map :: "(fl \<Rightarrow> fl) \<Rightarrow> series \<Rightarrow> series" where
  "s_map f s = s\<lparr>s_vals := map f (s_vals s)\<rparr>"

subsection \<open>Positional operations\<close>

text \<open>
  \<open>shift(1)\<close>: every row moves one place down under unchanged labels, the first row
  becomes missing and the last row falls off.
\<close>

definition df_shift :: "dataframe \<Rightarrow> dataframe" where
  "df_shift df = df\<lparr>vals :=
     (case vals df of [] \<Rightarrow> []
      | r # rs \<Rightarrow> replicate (length (columns df)) NaN # butlast (r # rs))\<rparr>"

text \<open>\<open>diff()\<close>: each row minus the row before it; the first row is missing.\<close>

definition df_diff :: "dataframe \<Rightarrow> dataframe" where
  "df_diff df = df\<lparr>vals := map2 (map2 fl_sub) (vals df) (vals (df_shift df))\<rparr>"

text \<open>\<open>sum(axis=1)\<close>: the sum of every row, as a series under the frame's row labels.\<close>

definition df_sum_axis1 :: "dataframe \<Rightarrow> series" where
  "df_sum_axis1 df = \<lparr>s_index = index df, s_vals = map nansum (vals df)\<rparr>"

text \<open>
  \<open>df.div(s, axis=0)\<close> where \<open>s\<close> carries the row labels of \<open>df\<close> (it is computed
  from \<open>df\<close> itself): every cell of a row is divided by the row's entry of \<open>s\<close>.
\<close>

definition df_div_axis0 :: "dataframe \<Rightarrow> series \<Rightarrow> dataframe" where
  "df_div_axis0 df s = df\<lparr>vals := map2 (\<lambda>r d. map (\<lambda>x. fl_div x d) r) (vals df) (s_vals s)\<rparr>"

text \<open>\<open>iloc[k:]\<close>: the rows from position \<open>k\<close> on.\<close>

definition df_iloc_from :: "nat \<Rightarrow> dataframe \<Rightarrow> dataframe" where
  "df_iloc_from k df = df\<lparr>index := drop k (index df), vals := drop k (vals df)\<rparr>"

definition s_iloc_from :: "nat \<Rightarrow> series \<Rightarrow> series" where
  "s_iloc_from k s = \<lparr>s_index = drop k (s_index s), s_vals = drop k (s_vals s)\<rparr>"

text \<open>
  \<open>cumprod()\<close> down every column with \<open>skipna=True\<close>: a missing cell stays missing
  in the result and counts as 1 in the running product. The frame is stored by rows, so
  the loop carries one running product per column, all starting at 1.
\<close>

fun cumprod_rows :: "fl list \<Rightarrow> fl list list \<Rightarrow> fl list list" where
  "cumprod_rows acc [] = []"
| "cumprod_rows acc (r # rs) =
     map2 (\<lambda>a x. if x = NaN then NaN else fl_mul a x) acc r
     # cumprod_rows (map2 (\<lambda>a x. if x = NaN then a else fl_mul a x) acc r) rs"

definition df_cumprod :: "dataframe \<Rightarrow> dataframe" where
  "df_cumprod df = df\<lparr>vals := cumprod_rows (replicate (length (columns df)) (Fin 1)) (vals df)\<rparr>"

text \<open>The same on a series: one running product.\<close>

fun cumprod_from :: "fl \<Rightarrow> fl list \<Rightarrow> fl list" where
  "cumprod_from acc [] = []"
| "cumprod_from acc (x # xs) =
     (if x = NaN then NaN # cumprod_from acc xs
      else fl_mul acc x # cumprod_from (fl_mul acc x) xs)"

definition s_cumprod :: "series \<Rightarrow> series" where
  "s_cumprod s = s\<lparr>s_vals := cumprod_from (Fin 1) (s_vals s)\<rparr>"

text \<open>
  \<open>pct_change()\<close> with its padding default (\<open>fill_method='pad'\<close>): every column is
  forward filled, then each cell is divided by the cell above it and 1 is subtracted.
  The loop carries the forward-filled row above (missing in every column before the
  first row), so the first row of the result, and every row up to a column's first
  price, is missing. Without the padding only the row after a gap inside a column would
  differ (it would be missing); a column whose prices are missing only at its start or
  its end gives the same returns either way once \<open>fillna(0)\<close> is applied.
\<close>

fun pct_change_rows :: "fl list \<Rightarrow> fl list list \<Rightarrow> fl list list" where
  "pct_change_rows prev [] = []"
| "pct_change_rows prev (r # rs) =
     (let cur = map2 (\<lambda>p x. if x = NaN then p else x) prev r
      in map2 (\<lambda>c p. fl_sub (fl_div c p) (Fin 1)) cur prev # pct_change_rows cur rs)"

definition pct_change :: "dataframe \<Rightarrow> dataframe" where
  "pct_change df = df\<lparr>vals := pct_change_rows (replicate (length (columns df)) NaN) (vals df)\<rparr>"

subsection \<open>Label alignment\<close>

text \<open>
  A binary operation on two frames, or on two series, first aligns them: when the
  labels of the two operands are equal they are used as they are; otherwise both
  operands are reindexed to the sorted union of the labels, and a cell that an operand
  does not have is missing. Labels are taken to be unique along each axis.
\<close>

definition union_labels :: "'a::linorder list \<Rightarrow> 'a list \<Rightarrow> 'a list" where
  "union_labels xs ys = (if xs = ys then xs else sort (remdups (xs @ ys)))"

fun pos :: "'a \<Rightarrow> 'a list \<Rightarrow> nat option" where
  "pos x [] = None"
| "pos x (y # ys) = (if x = y then Some 0 else map_option Suc (pos x ys))"

definition reindex_rows :: "date list \<Rightarrow> dataframe \<Rightarrow> dataframe" where
  "reindex_rows idx df =
     (if idx = index df then df
      else df\<lparr>index := idx,
              vals := map (\<lambda>d. case pos d (index df) of
                                  None \<Rightarrow> replicate (length (columns df)) NaN
                                | Some i \<Rightarrow> vals df ! i) idx\<rparr>)"

definition reindex_cols :: "asset list \<Rightarrow> dataframe \<Rightarrow> dataframe" where
  "reindex_cols cols df =
     (if cols = columns df then df
      else df\<lparr>columns := cols,
              vals := map (\<lambda>r. map (\<lambda>c. case pos c (columns df) of
                                             None \<Rightarrow> NaN
                                           | Some j \<Rightarrow> r ! j) cols) (vals df)\<rparr>)"

definition s_reindex :: "date list \<Rightarrow> series \<Rightarrow> series" where
  "s_reindex idx s =
     (if idx = s_index s then s
      else \<lparr>s_index = idx,
            s_vals = map (\<lambda>d. case pos d (s_index s) of
                                  None \<Rightarrow> NaN
                                | Some i \<Rightarrow> s_vals s ! i) idx\<rparr>)"

text \<open>\<open>a.multiply(b)\<close> on two frames.\<close>

definition df_multiply :: "dataframe \<Rightarrow> dataframe \<Rightarrow> dataframe" where
  "df_multiply a b =
     (let idx = union_labels (index a) (index b);
          cols = union_labels (columns a) (columns b);
          a' = reindex_cols cols (reindex_rows idx a);
          b' = reindex_cols cols (reindex_rows idx b)
      in \<lparr>index = idx, columns = cols, vals = map2 (map2 fl_mul) (vals a') (vals b')\<rparr>)"

text \<open>\<open>a - b\<close> on two series.\<close>

definition s_sub :: "series \<Rightarrow> series \<Rightarrow> series" where
  "s_sub a b =
     (let idx = union_labels (s_index a) (s_index b);
          a' = s_reindex idx a;
          b' = s_reindex idx b
      in \<lparr>s_index = idx, s_vals = map2 fl_sub (s_vals a') (s_vals b')\<rparr>)"

subsection \<open>Label lookups\<close>

text \<open>\<open>df.at[date, asset]\<close>: a label that is not there raises \<open>KeyError\<close>.\<close>

definition df_at :: "dataframe \<Rightarrow> date \<Rightarrow> asset \<Rightarrow> error + fl" where
  "df_at df d a =
     (case pos d (index df) of
        None \<Rightarrow> Inl KeyError
      | Some i \<Rightarrow> (case pos a (columns df) of
                     None \<Rightarrow> Inl KeyError
                   | Some j \<Rightarrow> Inr (vals df ! i ! j)))"

text \<open>
  \<open>df.iloc[0][asset]\<close>: the first row, then the asset's cell in it. A frame with no
  row raises \<open>IndexError\<close>.
\<close>

definition df_iloc0 :: "dataframe \<Rightarrow> asset \<Rightarrow> error + fl" where
  "df_iloc0 df a =
     (case vals df of
        [] \<Rightarrow> Inl IndexError
      | r # rs \<Rightarrow> (case pos a (columns df) of
                     None \<Rightarrow> Inl KeyError
                   | Some j \<Rightarrow> Inr (r ! j)))"

text \<open>The cells of the column labelled \<open>a\<close>, from the first row to the last.\<close>

definition df_column :: "dataframe \<Rightarrow> asset \<Rightarrow> fl list" where
  "df_column df a =
     (case pos a (columns df) of
        None \<Rightarrow> []
      | Some j \<Rightarrow> map (\<lambda>r. r ! j) (vals df))"

section \<open>The backtester\<close>

text \<open>
  The collaborators of \<open>Backtester\<close> whose code lies outside \<open>Backtester.py\<close>. A
  \<open>Calendar\<close> exposes \<open>all_dates\<close> and \<open>rebalancing_dates\<close>. A strategy is its
  \<open>get_position\<close>, taken to be a function of its arguments: it receives the price
  history (the frame of all assets, or one asset's column) and the current position, and
  returns the new position, a scalar or one weight per asset; \<open>None\<close> stands for an
  exception raised by the strategy.
\<close>

record calendar =
  all_dates :: "date list"
  rebalancing_dates :: "date list"

datatype position = Scalar fl | Vector "fl list"

datatype history = Frame dataframe | Column series

type_synonym strategy = "history \<Rightarrow> position \<Rightarrow> position option"

record backtester =
  data :: dataframe
  special_start :: nat
  multi_assets :: bool
  transaction_cost :: real
  slippage :: real
  calendar :: calendar

text \<open>
  \<open>__init__\<close>: \<open>data\<close> is the frame \<open>load_data\<close> returned. Reading \<open>index[0]\<close> of a
  frame with no row raises \<open>IndexError\<close>. The calendar is built by the collaborator
  \<open>Calendar\<close> from the frequency and the first and last date of the data.
\<close>

definition init ::
  "(string \<Rightarrow> date \<Rightarrow> date \<Rightarrow> calendar) \<Rightarrow> dataframe \<Rightarrow> bool \<Rightarrow> nat \<Rightarrow> real \<Rightarrow> real \<Rightarrow> string
     \<Rightarrow> error + backtester" where
  "init Calendar df multi start cost slip rebalancing_frequency =
     (case index df of
        [] \<Rightarrow> Inl IndexError
      | d # ds \<Rightarrow>
          Inr \<lparr>data = df, special_start = start, multi_assets = multi,
               transaction_cost = cost, slippage = slip,
               calendar = Calendar rebalancing_frequency d (last (d # ds))\<rparr>)"

subsection \<open>calculate_transaction_costs, calculate_slippage_costs\<close>

definition calculate_transaction_costs :: "backtester \<Rightarrow> dataframe \<Rightarrow> series" where
  "calculate_transaction_costs bt shifted_positions =
     s_map (\<lambda>x. fl_mul x (Fin (transaction_cost bt)))
       (df_sum_axis1 (df_abs (df_diff shifted_positions)))"

definition calculate_slippage_costs :: "backtester \<Rightarrow> dataframe \<Rightarrow> series" where
  "calculate_slippage_costs bt shifted_positions =
     s_map (\<lambda>x. fl_mul x (Fin (slippage bt)))
       (df_sum_axis1 (df_abs (df_diff shifted_positions)))"

subsection \<open>evaluate_trade\<close>

text \<open>
  The variables of the two nested loops. \<open>trade_count\<close> and \<open>win_trade_count\<close> live
  across all assets; \<open>last_position\<close> and \<open>last_trade_value\<close> are set anew for every
  asset.
\<close>

record trade_state =
  last_position :: fl
  last_trade_value :: fl
  trade_count :: nat
  win_trade_count :: nat

text \<open>
  The body of the inner loop at one date, \<open>current_position\<close> being the asset's cell
  of \<open>shifted_positions\<close> at that date. The price is looked up in \<open>self.data\<close> only
  when a trade is detected.
\<close>

definition trade_step ::
  "dataframe \<Rightarrow> asset \<Rightarrow> trade_state \<Rightarrow> date \<times> fl \<Rightarrow> error + trade_state" where
  "trade_step prices a st row =
     (let date = fst row; current_position = snd row in
      if fl_ne (last_position st) current_position then
        (case df_at prices date a of
           Inl e \<Rightarrow> Inl e
         | Inr current_value \<Rightarrow>
             Inr \<lparr>last_position = current_position,
                  last_trade_value = current_value,
                  trade_count = trade_count st + 1,
                  win_trade_count =
                    (if (fl_gt (last_position st) (Fin 0)
                           \<and> fl_gt current_value (last_trade_value st))
                        \<or> (fl_lt (last_position st) (Fin 0)
                           \<and> fl_lt current_value (last_trade_value st))
                     then win_trade_count st + 1 else win_trade_count st)\<rparr>)
      else Inr st)"

fun trade_loop ::
  "dataframe \<Rightarrow> asset \<Rightarrow> (date \<times> fl) list \<Rightarrow> trade_state \<Rightarrow> error + trade_state" where
  "trade_loop prices a [] st = Inr st"
| "trade_loop prices a (row # rows) st =
     (case trade_step prices a st row of
        Inl e \<Rightarrow> Inl e
      | Inr st' \<Rightarrow> trade_loop prices a rows st')"

text \<open>
  One round of the outer loop. The inner loop walks the row labels of
  \<open>shifted_positions\<close>, which are unique, so the cell it reads at a date is the cell
  of that row.
\<close>

definition evaluate_asset ::
  "dataframe \<Rightarrow> dataframe \<Rightarrow> asset \<Rightarrow> nat \<times> nat \<Rightarrow> error + nat \<times> nat" where
  "evaluate_asset prices shifted_positions a counts =
     (case df_iloc0 shifted_positions a of
        Inl e \<Rightarrow> Inl e
      | Inr p \<Rightarrow>
          (case df_iloc0 prices a of
             Inl e \<Rightarrow> Inl e
           | Inr v \<Rightarrow>
               (case trade_loop prices a
                       (zip (index shifted_positions) (df_column shifted_positions a))
                       \<lparr>last_position = p, last_trade_value = v,
                        trade_count = fst counts, win_trade_count = snd counts\<rparr> of
                  Inl e \<Rightarrow> Inl e
                | Inr st \<Rightarrow> Inr (trade_count st, win_trade_count st))))"

fun evaluate_assets ::
  "dataframe \<Rightarrow> dataframe \<Rightarrow> asset list \<Rightarrow> nat \<times> nat \<Rightarrow> error + nat \<times> nat" where
  "evaluate_assets prices shifted_positions [] counts = Inr counts"
| "evaluate_assets prices shifted_positions (a # as) counts =
     (case evaluate_asset prices shifted_positions a counts of
        Inl e \<Rightarrow> Inl e
      | Inr counts' \<Rightarrow> evaluate_assets prices shifted_positions as counts')"

definition evaluate_trade :: "backtester \<Rightarrow> dataframe \<Rightarrow> error + nat \<times> nat" where
  "evaluate_trade bt shifted_positions =
     evaluate_assets (data bt) shifted_positions (columns shifted_positions) (0, 0)"

subsection \<open>calculate_returns\<close>

text \<open>The asset returns: \<open>self.data.pct_change().fillna(0)\<close>.\<close>

definition asset_returns_of :: "dataframe \<Rightarrow> dataframe" where
  "asset_returns_of prices = df_fillna0 (pct_change prices)"

text \<open>The lagged positions: \<open>composition_matrix.shift(1).fillna(0)\<close>.\<close>

definition shift_positions :: "dataframe \<Rightarrow> dataframe" where
  "shift_positions composition_matrix = df_fillna0 (df_shift composition_matrix)"

text \<open>
  The normalisation:
  \<open>shifted_positions.div(shifted_positions.abs().sum(axis=1), axis=0).fillna(0)\<close>.
\<close>

definition normalize_positions :: "dataframe \<Rightarrow> dataframe" where
  "normalize_positions shifted_positions =
     df_fillna0 (df_div_axis0 shifted_positions (df_sum_axis1 (df_abs shifted_positions)))"

text \<open>The five series of \<open>calculate_returns\<close>, as they stand before the trimming.\<close>

record returns =
  shifted_positions :: dataframe
  asset_contributions :: dataframe
  portfolio_returns :: series
  cumulative_asset_returns :: dataframe
  cumulative_returns :: series

definition compute_returns :: "backtester \<Rightarrow> dataframe \<Rightarrow> returns" where
  "compute_returns bt composition_matrix =
     (let asset_returns = asset_returns_of (data bt);
          shifted = normalize_positions (shift_positions composition_matrix);
          transaction_costs = calculate_transaction_costs bt shifted;
          slippage_costs = calculate_slippage_costs bt shifted;
          contributions = df_multiply shifted asset_returns;
          portfolio = s_sub (s_sub (df_sum_axis1 contributions) transaction_costs) slippage_costs
      in \<lparr>shifted_positions = shifted,
          asset_contributions = contributions,
          portfolio_returns = portfolio,
          cumulative_asset_returns =
            df_map (\<lambda>x. fl_sub x (Fin 1)) (df_cumprod (df_map (fl_add (Fin 1)) contributions)),
          cumulative_returns =
            s_map (\<lambda>x. fl_sub x (Fin 1)) (s_cumprod (s_map (fl_add (Fin 1)) portfolio))\<rparr>)"

text \<open>The trimming: \<open>iloc[self.special_start + 1:]\<close> on each of the five, unless \<open>special_start\<close> is 1.\<close>

definition trim_returns :: "backtester \<Rightarrow> returns \<Rightarrow> returns" where
  "trim_returns bt r =
     (if special_start bt \<noteq> 1 then
        \<lparr>shifted_positions = df_iloc_from (special_start bt + 1) (shifted_positions r),
         asset_contributions = df_iloc_from (special_start bt + 1) (asset_contributions r),
         portfolio_returns = s_iloc_from (special_start bt + 1) (portfolio_returns r),
         cumulative_asset_returns = df_iloc_from (special_start bt + 1) (cumulative_asset_returns r),
         cumulative_returns = s_iloc_from (special_start bt + 1) (cumulative_returns r)\<rparr>
      else r)"

definition calculate_returns ::
  "backtester \<Rightarrow> dataframe \<Rightarrow> error + dataframe \<times> series \<times> dataframe \<times> series \<times> (nat \<times> nat)" where
  "calculate_returns bt composition_matrix =
     (let r = trim_returns bt (compute_returns bt composition_matrix) in
      case evaluate_trade bt (shifted_positions r) of
        Inl e \<Rightarrow> Inl e
      | Inr result_trade \<Rightarrow>
          Inr (asset_contributions r, portfolio_returns r,
               cumulative_asset_returns r, cumulative_returns r, result_trade))"

subsection \<open>calculate_composition_matrix\<close>

text \<open>
  \<open>Index.intersection\<close>: the labels of the first index that the second one has, each
  once, in the order of the first.
\<close>

definition index_intersection :: "date list \<Rightarrow> date list \<Rightarrow> date list" where
  "index_intersection xs ys = filter (\<lambda>d. d \<in> set ys) (rev (remdups (rev xs)))"

text \<open>\<open>df.loc[:date]\<close>: the rows from the first one up to and including the row labelled \<open>date\<close>.\<close>

definition df_loc_upto :: "dataframe \<Rightarrow> date \<Rightarrow> dataframe" where
  "df_loc_upto df d =
     (let n = length (dropWhile (\<lambda>x. x \<noteq> d) (rev (index df)))
      in df\<lparr>index := take n (index df), vals := take n (vals df)\<rparr>)"

text \<open>\<open>df[asset]\<close>: one column as a series.\<close>

definition df_getitem :: "dataframe \<Rightarrow> asset \<Rightarrow> series" where
  "df_getitem df a = \<lparr>s_index = index df, s_vals = df_column df a\<rparr>"

text \<open>
  \<open>composition_matrix.loc[current_date] = current_position\<close>: a scalar is written to
  every column of the row, and so is the entry of a vector that has one entry only; a
  longer vector gives the row and must have one entry per column.
\<close>

definition row_of_position :: "nat \<Rightarrow> position \<Rightarrow> fl list option" where
  "row_of_position n p =
     (case p of
        Scalar v \<Rightarrow> Some (replicate n v)
      | Vector vs \<Rightarrow>
          (if length vs = n then Some vs
           else if length vs = 1 then Some (replicate n (hd vs))
           else None))"

text \<open>
  \<open>composition_matrix.at[current_date, asset] = current_position\<close>: one cell takes a
  scalar, or the entry of a vector that has one entry only.
\<close>

definition cell_of_position :: "position \<Rightarrow> fl option" where
  "cell_of_position p =
     (case p of
        Scalar v \<Rightarrow> Some v
      | Vector vs \<Rightarrow> (if length vs = 1 then Some (hd vs) else None))"

text \<open>
  The loop over \<open>range(self.special_start, len(trading_dates))\<close> when \<open>multi_assets\<close>
  is set; \<open>m\<close> is the rows of \<open>composition_matrix\<close>.
\<close>

fun multi_loop ::
  "backtester \<Rightarrow> strategy \<Rightarrow> date list \<Rightarrow> nat list \<Rightarrow> position \<Rightarrow> fl list list
     \<Rightarrow> error + fl list list" where
  "multi_loop bt strat trading_dates [] current_position m = Inr m"
| "multi_loop bt strat trading_dates (date_index # rest) current_position m =
     (let current_date = trading_dates ! date_index;
          current_df = df_loc_upto (data bt) current_date
      in case (if current_date \<in> set (rebalancing_dates (calendar bt))
               then strat (Frame current_df) current_position
               else Some current_position) of
           None \<Rightarrow> Inl StrategyFailure
         | Some p \<Rightarrow>
             (case row_of_position (length (columns (data bt))) p of
                None \<Rightarrow> Inl ValueError
              | Some row \<Rightarrow> multi_loop bt strat trading_dates rest p (m[date_index := row])))"

text \<open>
  The inner loop of the other branch, for the asset \<open>a\<close> in column \<open>j\<close>; it writes
  one cell of \<open>composition_matrix\<close> at every date.
\<close>

fun single_loop ::
  "backtester \<Rightarrow> strategy \<Rightarrow> date list \<Rightarrow> nat \<times> asset \<Rightarrow> nat list \<Rightarrow> position \<Rightarrow> fl list list
     \<Rightarrow> error + fl list list" where
  "single_loop bt strat trading_dates ja [] current_position m = Inr m"
| "single_loop bt strat trading_dates ja (date_index # rest) current_position m =
     (let current_date = trading_dates ! date_index;
          current_df = df_getitem (df_loc_upto (data bt) current_date) (snd ja)
      in case (if current_date \<in> set (rebalancing_dates (calendar bt))
               then strat (Column current_df) current_position
               else Some current_position) of
           None \<Rightarrow> Inl StrategyFailure
         | Some p \<Rightarrow>
             (case cell_of_position p of
                None \<Rightarrow> Inl ValueError
              | Some v \<Rightarrow>
                  single_loop bt strat trading_dates ja rest p
                    (m[date_index := (m ! date_index)[fst ja := v]])))"

text \<open>The outer loop over the assets; every asset starts from position 0.\<close>

fun assets_loop ::
  "backtester \<Rightarrow> strategy \<Rightarrow> date list \<Rightarrow> (nat \<times> asset) list \<Rightarrow> fl list list
     \<Rightarrow> error + fl list list" where
  "assets_loop bt strat trading_dates [] m = Inr m"
| "assets_loop bt strat trading_dates (ja # rest) m =
     (case single_loop bt strat trading_dates ja
             [special_start bt..<length trading_dates] (Scalar (Fin 0)) m of
        Inl e \<Rightarrow> Inl e
      | Inr m' \<Rightarrow> assets_loop bt strat trading_dates rest m')"

definition trading_dates_of :: "backtester \<Rightarrow> date list" where
  "trading_dates_of bt = index_intersection (all_dates (calendar bt)) (index (data bt))"

definition calculate_composition_matrix :: "backtester \<Rightarrow> strategy \<Rightarrow> error + dataframe" where
  "calculate_composition_matrix bt strat =
     (let assets = columns (data bt);
          trading_dates = trading_dates_of bt;
          m = replicate (length trading_dates) (replicate (length assets) NaN)
      in case (if multi_assets bt
               then multi_loop bt strat trading_dates
                      [special_start bt..<length trading_dates] (Scalar (Fin 0)) m
               else assets_loop bt strat trading_dates (enumerate 0 assets) m) of
           Inl e \<Rightarrow> Inl e
         | Inr m' \<Rightarrow> Inr \<lparr>index = trading_dates, columns = assets, vals = m'\<rparr>)"

subsection \<open>run\<close>

text \<open>The collaborator \<open>Result\<close>, as the record of what \<open>run\<close> hands to it.\<close>

record result =
  res_portfolio_returns :: series
  res_cumulative_returns :: series
  risk_free_rate :: int
  trade_stats :: "nat \<times> nat"

definition run :: "backtester \<Rightarrow> strategy \<Rightarrow> error + result" where
  "run bt strat =
     (case calculate_composition_matrix bt strat of
        Inl e \<Rightarrow> Inl e
      | Inr composition_matrix \<Rightarrow>
          (case calculate_returns bt composition_matrix of
             Inl e \<Rightarrow> Inl e
           | Inr (contributions, portfolio, cumulative_contributions, cumulative,
                  result_trade) \<Rightarrow>
               Inr \<lparr>res_portfolio_returns = portfolio,
                    res_cumulative_returns = cumulative,
                    risk_free_rate = 0,
                    trade_stats = result_trade\<rparr>))"

section \<open>Notions used in the statements\<close>

text \<open>The normalisation of \<open>calculate_returns\<close> on one row.\<close>

definition normalize_row :: "fl list \<Rightarrow> fl list" where
  "normalize_row r = map (\<lambda>x. fillna0 (fl_div x (nansum (map fl_abs r)))) r"

text \<open>
  A column of positions that changes at most once, and only away from zero: zeros, then
  one value that is kept to the end.
\<close>

fun once_from_zero :: "fl list \<Rightarrow> bool" where
  "once_from_zero [] = True"
| "once_from_zero (x # xs) =
     (if x = Fin 0 then once_from_zero xs else x \<noteq> NaN \<and> list_all (\<lambda>y. y = x) xs)"

text \<open>The winning test of \<open>evaluate_trade\<close> at a detected trade.\<close>

definition won :: "fl \<Rightarrow> fl \<Rightarrow> fl \<Rightarrow> bool" where
  "won outgoing current_value entry_value =
     ((fl_gt outgoing (Fin 0) \<and> fl_gt current_value entry_value)
      \<or> (fl_lt outgoing (Fin 0) \<and> fl_lt current_value entry_value))"

text \<open>A price cell that is a positive number or missing; a table of such cells.\<close>

fun price_ok :: "fl \<Rightarrow> bool" where
  "price_ok (Fin p) = (0 < p)"
| "price_ok PInf = False"
| "price_ok NInf = False"
| "price_ok NaN = True"

definition prices_ok :: "dataframe \<Rightarrow> bool" where
  "prices_ok df = list_all (list_all price_ok) (vals df)"

text \<open>Frames and series all of whose cells are finite numbers (neither missing nor infinite).\<close>

definition finite_frame :: "dataframe \<Rightarrow> bool" where
  "finite_frame df = list_all (list_all is_fin) (vals df)"

definition finite_series :: "series \<Rightarrow> bool" where
  "finite_series s = list_all is_fin (s_vals s)"

text \<open>
  The turnover of every date: \<open>shifted_positions.diff().abs().sum(axis=1)\<close>, the factor
  of both cost rates.
\<close>

definition turnover :: "dataframe \<Rightarrow> series" where
  "turnover sp = df_sum_axis1 (df_abs (df_diff sp))"

text \<open>
  The five series of \<open>calculate_returns\<close> all carry the row labels \<open>idx\<close>, have one
  row per label, and hold finite numbers only.
\<close>

definition aligned_finite :: "date list \<Rightarrow> returns \<Rightarrow> bool" where
  "aligned_finite idx r =
     (index (shifted_positions r) = idx \<and> index (asset_contributions r) = idx
      \<and> s_index (portfolio_returns r) = idx \<and> index (cumulative_asset_returns r) = idx
      \<and> s_index (cumulative_returns r) = idx
      \<and> length (vals (shifted_positions r)) = length idx
      \<and> length (vals (asset_contributions r)) = length idx
      \<and> length (s_vals (portfolio_returns r)) = length idx
      \<and> length (vals (cumulative_asset_returns r)) = length idx
      \<and> length (s_vals (cumulative_returns r)) = length idx
      \<and> finite_frame (shifted_positions r) \<and> finite_frame (asset_contributions r)
      \<and> finite_series (portfolio_returns r) \<and> finite_frame (cumulative_asset_returns r)
      \<and> finite_series (cumulative_returns r))"

section \<open>Example inputs\<close>

text \<open>A composition matrix over three dates and two assets, with missing entries.\<close>

definition cm_demo :: dataframe where
  "cm_demo = \<lparr>index = [0, 1, 2], columns = [''A'', ''B''],
              vals = [[Fin 1, NaN], [Fin 2, Fin 3], [NaN, NaN]]\<rparr>"

text \<open>
  Price tables of one asset over four dates; a window of lagged positions that starts
  at date 1 and closes the position at date 3; lagged positions that enter at date 2; a
  composition matrix whose lagged positions, trimmed for \<open>special_start = 0\<close>, are
  that window; a backtester over a price table whose calendar has every date and no
  rebalancing date.
\<close>

definition prices_demo :: dataframe where
  "prices_demo = \<lparr>index = [0, 1, 2, 3], columns = [''A''],
                  vals = [[Fin 100], [Fin 50], [Fin 50], [Fin 60]]\<rparr>"

definition prices_up :: dataframe where
  "prices_up = \<lparr>index = [0, 1, 2, 3], columns = [''A''],
                vals = [[Fin 100], [Fin 110], [Fin 120], [Fin 130]]\<rparr>"

definition window_demo :: dataframe where
  "window_demo = \<lparr>index = [1, 2, 3], columns = [''A''],
                  vals = [[Fin 1], [Fin 1], [Fin 0]]\<rparr>"

definition entry_demo :: dataframe where
  "entry_demo = \<lparr>index = [0, 1, 2, 3], columns = [''A''],
                 vals = [[Fin 0], [Fin 0], [Fin 1], [Fin 1]]\<rparr>"

definition cm_window :: dataframe where
  "cm_window = \<lparr>index = [0, 1, 2, 3], columns = [''A''],
                vals = [[Fin 1], [Fin 1], [Fin 0], [Fin 0]]\<rparr>"

definition bt_of :: "dataframe \<Rightarrow> nat \<Rightarrow> backtester" where
  "bt_of prices start =
     \<lparr>data = prices, special_start = start, multi_assets = False,
      transaction_cost = 0, slippage = 0,
      calendar = \<lparr>all_dates = index prices, rebalancing_dates = []\<rparr>\<rparr>"

text \<open>
  Scenario 1 of the specification: one asset with the prices 100, 110, 99, 99, 120 on
  the dates 0 to 4, a calendar with these dates whose only rebalancing date is date 0,
  a strategy that always answers position 1, no costs. The two parameters left open are
  the mode and \<open>special_start\<close>. The three matrices are the composition matrices that
  \<open>calculate_composition_matrix\<close> builds for \<open>special_start\<close> 0, 1 and 7.
\<close>

definition prices_scenario :: dataframe where
  "prices_scenario = \<lparr>index = [0, 1, 2, 3, 4], columns = [''A''],
     vals = [[Fin 100], [Fin 110], [Fin 99], [Fin 99], [Fin 120]]\<rparr>"

definition always_one :: strategy where
  "always_one h p = Some (Scalar (Fin 1))"

definition bt_scenario :: "bool \<Rightarrow> nat \<Rightarrow> backtester" where
  "bt_scenario multi start =
     \<lparr>data = prices_scenario, special_start = start, multi_assets = multi,
      transaction_cost = 0, slippage = 0,
      calendar = \<lparr>all_dates = [0, 1, 2, 3, 4], rebalancing_dates = [0]\<rparr>\<rparr>"

definition held_scenario :: dataframe where
  "held_scenario = \<lparr>index = [0, 1, 2, 3, 4], columns = [''A''],
     vals = [[Fin 1], [Fin 1], [Fin 1], [Fin 1], [Fin 1]]\<rparr>"

definition flat_scenario :: dataframe where
  "flat_scenario = \<lparr>index = [0, 1, 2, 3, 4], columns = [''A''],
     vals = [[NaN], [Fin 0], [Fin 0], [Fin 0], [Fin 0]]\<rparr>"

definition missing_scenario :: dataframe where
  "missing_scenario = \<lparr>index = [0, 1, 2, 3, 4], columns = [''A''],
     vals = [[NaN], [NaN], [NaN], [NaN], [NaN]]\<rparr>"

text \<open>
  Two assets over three dates with a composition matrix that switches between them; a
  table with a zero price and a matrix that holds nothing; a table of three dates and a
  composition matrix that lacks the middle date.
\<close>

definition prices_two :: dataframe where
  "prices_two = \<lparr>index = [0, 1, 2], columns = [''A'', ''B''],
                 vals = [[Fin 10, Fin 20], [Fin 11, Fin 20], [Fin 11, Fin 22]]\<rparr>"

definition cm_switch :: dataframe where
  "cm_switch = \<lparr>index = [0, 1, 2], columns = [''A'', ''B''],
                vals = [[Fin 1, Fin 0], [Fin 0, Fin 1], [Fin 1, Fin 0]]\<rparr>"

definition prices_zero :: dataframe where
  "prices_zero = \<lparr>index = [0, 1], columns = [''A''], vals = [[Fin 0], [Fin 5]]\<rparr>"

definition cm_flat :: dataframe where
  "cm_flat = \<lparr>index = [0, 1], columns = [''A''], vals = [[Fin 0], [Fin 0]]\<rparr>"

definition prices_three :: dataframe where
  "prices_three = \<lparr>index = [0, 1, 2], columns = [''A''],
                   vals = [[Fin 10], [Fin 11], [Fin 12]]\<rparr>"

definition cm_gap :: dataframe where
  "cm_gap = \<lparr>index = [0, 2], columns = [''A''], vals = [[Fin 1], [Fin 1]]\<rparr>"

section \<open>Properties\<close>

subsection \<open>The lag of one date\<close>

lemma shift_positions_vals:
  "vals (shift_positions cm) =
     (case vals cm of [] \<Rightarrow> []
      | r # rs \<Rightarrow> replicate (length (columns cm)) (Fin 0) # map (map fillna0) (butlast (r # rs)))"
  by (simp add: shift_positions_def df_fillna0_def df_map_def df_shift_def fillna0_def split: list.splits)

lemma shift_positions_labels:
  "index (shift_positions cm) = index cm" "columns (shift_positions cm) = columns cm"
  by (simp_all add: shift_positions_def df_fillna0_def df_map_def df_shift_def)

text \<open>
  Claim C1. In \<open>calculate_returns\<close> the lagged position matrix keeps the labels and
  the number of rows of the composition matrix; its row at every position \<open>t > 0\<close> is
  the row of the composition matrix at \<open>t - 1\<close> with missing entries replaced by 0,
  and its first row is 0 for every asset. The positions that the return computation
  uses are the normalisation of this matrix, whatever the price data are.
\<close>

theorem shifted_positions_lag_one:
  "index (shift_positions cm) = index cm
   \<and> columns (shift_positions cm) = columns cm
   \<and> length (vals (shift_positions cm)) = length (vals cm)
   \<and> (\<forall>t. 0 < t \<and> t < length (vals cm)
          \<longrightarrow> vals (shift_positions cm) ! t = map fillna0 (vals cm ! (t - 1)))
   \<and> (vals cm \<noteq> []
          \<longrightarrow> vals (shift_positions cm) ! 0 = replicate (length (columns cm)) (Fin 0))
   \<and> shifted_positions (compute_returns bt cm) = normalize_positions (shift_positions cm)"
proof (intro conjI allI impI)
  show "length (vals (shift_positions cm)) = length (vals cm)"
    by (simp add: shift_positions_vals split: list.splits)
next
  fix t assume t: "0 < t \<and> t < length (vals cm)"
  then obtain r rs where rs: "vals cm = r # rs" by (cases "vals cm") auto
  from t rs have "t - 1 < length (butlast (r # rs))" by (simp del: butlast.simps) arith
  then have "map (map fillna0) (butlast (r # rs)) ! (t - 1) = map fillna0 ((r # rs) ! (t - 1))"
    by (simp add: nth_butlast del: butlast.simps)
  with t rs show "vals (shift_positions cm) ! t = map fillna0 (vals cm ! (t - 1))"
    by (cases t) (simp_all add: shift_positions_vals del: butlast.simps)
next
  assume "vals cm \<noteq> []"
  then show "vals (shift_positions cm) ! 0 = replicate (length (columns cm)) (Fin 0)"
    by (cases "vals cm") (simp_all add: shift_positions_vals)
next
  show "shifted_positions (compute_returns bt cm) = normalize_positions (shift_positions cm)"
    by (simp add: compute_returns_def Let_def)
qed (simp_all add: shift_positions_labels)

theorem shifted_positions_lag_one_witness:
  "vals (shift_positions cm_demo) = [[Fin 0, Fin 0], [Fin 1, Fin 0], [Fin 2, Fin 3]]
   \<and> vals (shift_positions cm_demo) ! 1 = map fillna0 (vals cm_demo ! 0)
   \<and> vals (shift_positions cm_demo) ! 0 = replicate (length (columns cm_demo)) (Fin 0)"
  using shifted_positions_lag_one [of cm_demo]
  by (simp add: cm_demo_def shift_positions_vals fillna0_def)

subsection \<open>The normalisation\<close>

lemma map2_map_same: "map2 f xs (map g xs) = map (\<lambda>x. f x (g x)) xs"
  by (induction xs) simp_all

lemma normalize_positions_vals:
  "vals (normalize_positions sp) = map normalize_row (vals sp)"
  by (simp add: normalize_positions_def df_fillna0_def df_map_def df_div_axis0_def
      df_sum_axis1_def df_abs_def normalize_row_def map2_map_same comp_def)

lemma fillna0_simps [simp]:
  "fillna0 (Fin a) = Fin a" "fillna0 PInf = PInf" "fillna0 NInf = NInf" "fillna0 NaN = Fin 0"
  by (simp_all add: fillna0_def)

lemma nansum_Nil [simp]: "nansum [] = Fin 0"
  by (simp add: nansum_def)

lemma nansum_Cons [simp]: "nansum (x # xs) = fl_add (fillna0 x) (nansum xs)"
  by (simp add: nansum_def)

lemma nansum_Fin: "nansum (map Fin xs) = Fin (sum_list xs)"
  by (induction xs) simp_all

lemma finite_row_eq: "list_all is_fin r \<Longrightarrow> \<exists>xs. r = map Fin xs"
proof (induction r)
  case Nil
  then show ?case by simp
next
  case (Cons x r)
  then obtain xs where "r = map Fin xs" by auto
  moreover from Cons.prems obtain a where "x = Fin a" by (cases x) auto
  ultimately have "x # r = map Fin (a # xs)" by simp
  then show ?case ..
qed

lemma abs_sum_cases:
  "NaN \<notin> set r \<Longrightarrow>
     (list_all is_fin r \<and> (\<exists>s. nansum (map fl_abs r) = Fin s)) 
     \<or> (\<not> list_all is_fin r \<and> nansum (map fl_abs r) = PInf)"
proof (induction r)
  case Nil
  then show ?case by simp
next
  case (Cons x r)
  then show ?case by (cases x) auto
qed

lemma sum_abs_zero: "(\<Sum>x\<leftarrow>xs. \<bar>x\<bar>) = (0::real) \<Longrightarrow> xs = replicate (length xs) 0"
proof (induction xs)
  case Nil
  then show ?case by simp
next
  case (Cons x xs)
  have "0 \<le> (\<Sum>x\<leftarrow>xs. \<bar>x\<bar>)" by (rule sum_list_nonneg) auto
  with Cons.prems have "x = 0" "(\<Sum>x\<leftarrow>xs. \<bar>x\<bar>) = 0" by simp_all
  with Cons.IH show ?case by simp
qed

lemma normalize_row_zero:
  assumes "(\<Sum>x\<leftarrow>xs. \<bar>x\<bar>) = (0::real)"
  shows "normalize_row (map Fin xs) = replicate (length xs) (Fin 0)"
proof -
  have s: "nansum (map fl_abs (map Fin xs)) = Fin 0"
    using assms nansum_Fin [of "map abs xs"] by (simp add: comp_def)
  have "map (\<lambda>x. fillna0 (fl_div (Fin x) (Fin 0))) xs = replicate (length xs) (Fin 0)"
    using sum_abs_zero [OF assms]
    by (metis (no_types, lifting) map_replicate_const map_eq_conv in_set_replicate
        fl_div.simps(1) signed_inf_def fillna0_simps(4) less_irrefl)
  with s show ?thesis by (simp add: normalize_row_def comp_def)
qed


lemma normalize_row_pos:
  assumes "(\<Sum>x\<leftarrow>xs. \<bar>x\<bar>) \<noteq> (0::real)"
  shows "normalize_row (map Fin xs) = map (\<lambda>x. Fin (x / (\<Sum>x\<leftarrow>xs. \<bar>x\<bar>))) xs"
proof -
  have s: "nansum (map fl_abs (map Fin xs)) = Fin (\<Sum>x\<leftarrow>xs. \<bar>x\<bar>)"
    using nansum_Fin [of "map abs xs"] by (simp add: comp_def)
  with assms show ?thesis by (simp add: normalize_row_def comp_def)
qed

lemma abs_sum_normalized:
  assumes "(\<Sum>x\<leftarrow>xs. \<bar>x\<bar>) \<noteq> (0::real)"
  shows "nansum (map fl_abs (normalize_row (map Fin xs))) = Fin 1"
proof -
  let ?S = "\<Sum>x\<leftarrow>xs. \<bar>x\<bar>"
  have nn: "0 \<le> ?S" by (rule sum_list_nonneg) auto
  have "map fl_abs (normalize_row (map Fin xs)) = map Fin (map (\<lambda>x. \<bar>x\<bar> / ?S) xs)"
    using nn by (simp add: normalize_row_pos [OF assms] comp_def)
  then have "nansum (map fl_abs (normalize_row (map Fin xs))) = Fin (\<Sum>x\<leftarrow>xs. \<bar>x\<bar> / ?S)"
    by (simp only: nansum_Fin)
  also have "(\<Sum>x\<leftarrow>xs. \<bar>x\<bar> / ?S) = ?S / ?S"
    using sum_list_mult_const [of "\<lambda>x. \<bar>x\<bar>" "1 / ?S" xs] by simp
  finally show ?thesis using assms by simp
qed

lemma normalize_row_infinite:
  assumes "NaN \<notin> set r" "\<not> list_all is_fin r"
  shows "normalize_row r = replicate (length r) (Fin 0)"
proof -
  from abs_sum_cases [OF assms(1)] assms(2) have s: "nansum (map fl_abs r) = PInf" by blast
  have "\<And>x. x \<in> set r \<Longrightarrow> fillna0 (fl_div x PInf) = Fin 0"
  proof -
    fix x assume "x \<in> set r"
    with assms(1) have "x \<noteq> NaN" by auto
    then show "fillna0 (fl_div x PInf) = Fin 0" by (cases x) simp_all
  qed
  then have "map (\<lambda>x. fillna0 (fl_div x PInf)) r = map (\<lambda>x. Fin 0) r"
    by simp
  then have "map (\<lambda>x. fillna0 (fl_div x PInf)) r = replicate (length r) (Fin 0)"
    by (simp only: map_replicate_const)
  with s show ?thesis by (simp add: normalize_row_def)
qed

lemma nansum_zeros [simp]: "nansum (replicate n (Fin 0)) = Fin 0"
  by (induction n) simp_all

lemma all_fin_zeros [simp]: "list_all is_fin (replicate n (Fin 0))"
  by (induction n) simp_all

text \<open>What the normalisation does to one row that has no missing entry.\<close>

lemma normalize_row_props:
  assumes "NaN \<notin> set r"
  shows "(nansum (map fl_abs (normalize_row r)) = Fin 1
            \<or> nansum (map fl_abs (normalize_row r)) = Fin 0)
       \<and> list_all is_fin (normalize_row r)
       \<and> (list_all is_fin r \<and> nansum (map fl_abs (normalize_row r)) = Fin 0
            \<longrightarrow> r = replicate (length r) (Fin 0))
       \<and> (nansum (map fl_abs r) = Fin 0
            \<longrightarrow> normalize_row r = replicate (length r) (Fin 0))"
proof (cases "list_all is_fin r")
  case False
  from abs_sum_cases [OF assms] False have "nansum (map fl_abs r) = PInf" by blast
  with False show ?thesis by (simp add: normalize_row_infinite [OF assms False])
next
  case True
  then obtain xs where r: "r = map Fin xs" using finite_row_eq by blast
  have s: "nansum (map fl_abs r) = Fin (\<Sum>x\<leftarrow>xs. \<bar>x\<bar>)"
    using nansum_Fin [of "map abs xs"] by (simp add: r comp_def)
  show ?thesis
  proof (cases "(\<Sum>x\<leftarrow>xs. \<bar>x\<bar>) = 0")
    case z: True
    have nr: "normalize_row r = replicate (length r) (Fin 0)"
      using normalize_row_zero [OF z] by (simp add: r)
    have rz: "r = replicate (length r) (Fin 0)"
      using sum_abs_zero [OF z] by (metis r length_map map_replicate)
    have "nansum (map fl_abs (normalize_row r)) = Fin 0" "list_all is_fin (normalize_row r)"
      by (simp_all add: nr)
    with nr rz show ?thesis by blast
  next
    case nz: False
    have "list_all is_fin (normalize_row r)"
      by (simp add: r normalize_row_pos [OF nz] list_all_iff)
    then show ?thesis using nz s by (simp add: r abs_sum_normalized)
  qed
qed

lemma shift_positions_no_nan:
  "r \<in> set (vals (shift_positions cm)) \<Longrightarrow> NaN \<notin> set r"
  by (auto simp: shift_positions_def df_fillna0_def df_map_def fillna0_def split: if_splits)




subsection \<open>Trade evaluation\<close>

lemma fl_ne_iff: "x \<noteq> NaN \<Longrightarrow> y \<noteq> NaN \<Longrightarrow> fl_ne x y = (x \<noteq> y)"
  by (simp add: fl_ne_def)

lemma trade_step_same:
  "\<not> fl_ne (last_position st) x \<Longrightarrow> trade_step prices a st (d, x) = Inr st"
  by (simp add: trade_step_def)

lemma trade_step_change:
  "fl_ne (last_position st) x \<Longrightarrow> df_at prices d a = Inr v \<Longrightarrow>
   trade_step prices a st (d, x) =
     Inr \<lparr>last_position = x, last_trade_value = v, trade_count = trade_count st + 1,
          win_trade_count = (if won (last_position st) v (last_trade_value st)
                             then win_trade_count st + 1 else win_trade_count st)\<rparr>"
  by (simp add: trade_step_def won_def)

lemma trade_loop_append:
  "trade_loop prices a (xs @ ys) st =
     (case trade_loop prices a xs st of Inl e \<Rightarrow> Inl e | Inr st' \<Rightarrow> trade_loop prices a ys st')"
  by (induction xs arbitrary: st) (simp_all split: sum.splits)

lemma trade_loop_unchanged:
  "list_all (\<lambda>row. \<not> fl_ne (last_position st) (snd row)) rows \<Longrightarrow>
   trade_loop prices a rows st = Inr st"
  by (induction rows) (auto simp: trade_step_same)

lemma pos_Some: "x \<in> set xs \<Longrightarrow> \<exists>i. pos x xs = Some i \<and> i < length xs \<and> xs ! i = x"
  by (induction xs) auto

lemma df_at_ok:
  assumes "d \<in> set (index df)" "a \<in> set (columns df)"
  shows "\<exists>v. df_at df d a = Inr v"
proof -
  from assms obtain i j where "pos d (index df) = Some i" "pos a (columns df) = Some j"
    using pos_Some [of d "index df"] pos_Some [of a "columns df"] by blast
  then show ?thesis by (simp add: df_at_def)
qed

lemma not_won_from_zero [simp]: "\<not> won (Fin 0) v w"
  by (simp add: won_def fl_gt_def)

lemma trade_loop_zero_start:
  assumes "last_position st = Fin 0" "once_from_zero (map snd rows)"
    "list_all (\<lambda>row. fst row \<in> set (index prices)) rows" "a \<in> set (columns prices)"
  shows "\<exists>st'. trade_loop prices a rows st = Inr st' \<and> win_trade_count st' = win_trade_count st"
  using assms(1-3)
proof (induction rows arbitrary: st)
  case Nil
  then show ?case by simp
next
  case (Cons row rows)
  obtain d x where row: "row = (d, x)" by (cases row)
  show ?case
  proof (cases "x = Fin 0")
    case True
    with Cons.prems row have "trade_step prices a st row = Inr st"
      by (simp add: trade_step_same fl_ne_def)
    moreover from Cons.prems row True have "once_from_zero (map snd rows)"
      "list_all (\<lambda>row. fst row \<in> set (index prices)) rows" by simp_all
    ultimately show ?thesis using Cons.IH [OF Cons.prems(1)] by simp
  next
    case False
    with Cons.prems row have x: "x \<noteq> NaN" and same: "list_all (\<lambda>y. y = x) (map snd rows)"
      by simp_all
    from Cons.prems row have "d \<in> set (index prices)" by simp
    with assms(4) obtain v where v: "df_at prices d a = Inr v" using df_at_ok by blast
    define st1 where "st1 = \<lparr>last_position = x, last_trade_value = v,
        trade_count = trade_count st + 1, win_trade_count = win_trade_count st\<rparr>"
    from False Cons.prems(1) have "fl_ne (last_position st) x" by (simp add: fl_ne_def)
    from trade_step_change [OF this v] Cons.prems(1) row
    have step: "trade_step prices a st row = Inr st1" by (simp add: st1_def)
    from same x have "list_all (\<lambda>row. \<not> fl_ne (last_position st1) (snd row)) rows"
      by (simp add: st1_def fl_ne_def list_all_iff)
    then have "trade_loop prices a rows st1 = Inr st1" by (rule trade_loop_unchanged)
    with step show ?thesis by (simp add: st1_def)
  qed
qed

lemma trade_loop_first_row_start:
  assumes "last_position st = snd row" "once_from_zero (map snd (row # rows))"
    "list_all (\<lambda>row. fst row \<in> set (index prices)) (row # rows)" "a \<in> set (columns prices)"
  shows "\<exists>st'. trade_loop prices a (row # rows) st = Inr st'
           \<and> win_trade_count st' = win_trade_count st"
proof (cases "snd row = Fin 0")
  case True
  with assms show ?thesis using trade_loop_zero_start [of st "row # rows" prices a] by simp
next
  case False
  with assms(1,2) have "list_all (\<lambda>r. \<not> fl_ne (last_position st) (snd r)) (row # rows)"
    by (simp add: fl_ne_def list_all_iff)
  then have "trade_loop prices a (row # rows) st = Inr st" by (rule trade_loop_unchanged)
  then show ?thesis by simp
qed

lemma df_column_in: 
  assumes "a \<in> set (columns df)"
  shows "\<exists>j. pos a (columns df) = Some j \<and> df_column df a = map (\<lambda>r. r ! j) (vals df)"
  using pos_Some [OF assms] by (auto simp: df_column_def)

lemma evaluate_asset_once_from_zero:
  assumes "vals sp \<noteq> []" "length (index sp) = length (vals sp)"
    "set (index sp) \<subseteq> set (index prices)" "vals prices \<noteq> []"
    "a \<in> set (columns sp)" "a \<in> set (columns prices)"
    "once_from_zero (df_column sp a)"
  shows "\<exists>n. evaluate_asset prices sp a (c, w) = Inr (n, w)"
proof -
  from df_column_in [OF assms(5)] obtain j where j: "pos a (columns sp) = Some j"
    and col: "df_column sp a = map (\<lambda>r. r ! j) (vals sp)" by blast
  from assms(1) obtain r rs where rs: "vals sp = r # rs" by (cases "vals sp") auto
  with assms(2) obtain d ds where ds: "index sp = d # ds" "length ds = length rs"
    by (cases "index sp") auto
  from df_column_in [OF assms(6)] obtain k where k: "pos a (columns prices) = Some k" by blast
  from assms(4) obtain q qs where qs: "vals prices = q # qs" by (cases "vals prices") auto
  have p: "df_iloc0 sp a = Inr (r ! j)" by (simp add: df_iloc0_def rs j)
  have v: "df_iloc0 prices a = Inr (q ! k)" by (simp add: df_iloc0_def qs k)
  let ?rows = "zip ds (map (\<lambda>r. r ! j) rs)"
  let ?st = "\<lparr>last_position = r ! j, last_trade_value = q ! k,
              trade_count = c, win_trade_count = w\<rparr>"
  have z: "zip (index sp) (df_column sp a) = (d, r ! j) # ?rows" by (simp add: ds col rs)
  have snd_rows: "map snd ((d, r ! j) # ?rows) = df_column sp a"
    using ds(2) by (simp add: col rs)
  have "list_all (\<lambda>row. fst row \<in> set (index prices)) ((d, r ! j) # ?rows)"
    using assms(3) ds by (auto simp: list_all_iff dest: set_zip_leftD)
  then have la: "list_all (\<lambda>row. fst row \<in> set (index prices)) ((d, r ! j) # ?rows)" .
  have ofz: "once_from_zero (map snd ((d, r ! j) # ?rows))"
    using assms(7) by (simp only: snd_rows)
  have lp: "last_position ?st = snd (d, r ! j)" by simp
  from trade_loop_first_row_start [OF lp ofz la assms(6)]
  obtain st' where "trade_loop prices a ((d, r ! j) # ?rows) ?st = Inr st'"
    "win_trade_count st' = w" by force
  then show ?thesis by (simp add: evaluate_asset_def p v z del: trade_loop.simps)
qed

lemma evaluate_assets_once_from_zero:
  assumes "vals sp \<noteq> []" "length (index sp) = length (vals sp)"
    "set (index sp) \<subseteq> set (index prices)" "vals prices \<noteq> []"
    "set cols \<subseteq> set (columns sp)" "set cols \<subseteq> set (columns prices)"
    "list_all (\<lambda>a. once_from_zero (df_column sp a)) cols"
  shows "\<exists>n. evaluate_assets prices sp cols (c, w) = Inr (n, w)"
  using assms(5-7)
proof (induction cols arbitrary: c)
  case Nil
  then show ?case by simp
next
  case (Cons a cols)
  from Cons.prems have "a \<in> set (columns sp)" "a \<in> set (columns prices)"
    "once_from_zero (df_column sp a)" by simp_all
  from evaluate_asset_once_from_zero [OF assms(1-4) this]
  obtain n where "evaluate_asset prices sp a (c, w) = Inr (n, w)" by blast
  moreover from Cons.prems have "set cols \<subseteq> set (columns sp)"
    "set cols \<subseteq> set (columns prices)"
    "list_all (\<lambda>a. once_from_zero (df_column sp a)) cols" by simp_all
  from Cons.IH [OF this] obtain m where
    "evaluate_assets prices sp cols (n, w) = Inr (m, w)" by blast
  ultimately show ?case by simp
qed







lemma trade_loop_first_change:
  assumes "list_all (\<lambda>row. \<not> fl_ne (last_position st) (snd row)) before"
    "fl_ne (last_position st) x" "df_at prices d a = Inr v"
  shows "trade_loop prices a (before @ (d, x) # rest) st =
           trade_loop prices a rest
             \<lparr>last_position = x, last_trade_value = v, trade_count = trade_count st + 1,
              win_trade_count = (if won (last_position st) v (last_trade_value st)
                                 then win_trade_count st + 1 else win_trade_count st)\<rparr>"
  using trade_loop_unchanged [OF assms(1)] trade_step_change [OF assms(2,3)]
  by (simp add: trade_loop_append)



subsection \<open>Evaluation on concrete inputs\<close>

lemmas frame_defs = df_map_def df_fillna0_def df_abs_def s_map_def df_shift_def df_diff_def
  df_sum_axis1_def df_div_axis0_def df_iloc_from_def s_iloc_from_def df_cumprod_def
  s_cumprod_def pct_change_def union_labels_def reindex_rows_def reindex_cols_def
  s_reindex_def df_multiply_def s_sub_def df_at_def df_iloc0_def df_column_def
  fl_sub_def signed_inf_def fl_gt_def fl_ne_def

lemmas returns_defs = calculate_transaction_costs_def calculate_slippage_costs_def
  asset_returns_of_def shift_positions_def normalize_positions_def compute_returns_def
  trim_returns_def calculate_returns_def evaluate_trade_def evaluate_asset_def trade_step_def

lemmas composition_defs = index_intersection_def df_loc_upto_def df_getitem_def
  row_of_position_def cell_of_position_def trading_dates_of_def calculate_composition_matrix_def run_def

subsection \<open>Scenario 1\<close>

lemma upt_scenario:
  "[0..<5] = [0, 1, 2, 3, 4]" "[1..<5] = [1, 2, 3, 4]" "[7..<5] = []"
  by (simp_all add: upt_rec)

lemma scenario_composition:
  "calculate_composition_matrix (bt_scenario multi 0) always_one = Inr held_scenario"
  "calculate_composition_matrix (bt_scenario multi 1) always_one = Inr flat_scenario"
  "calculate_composition_matrix (bt_scenario multi 7) always_one = Inr missing_scenario"
  by (cases multi;
      simp add: composition_defs bt_scenario_def prices_scenario_def always_one_def
        held_scenario_def flat_scenario_def missing_scenario_def upt_scenario enumerate_eq_zip
        Let_def)+

lemma scenario_returns_0:
  "calculate_returns (bt_scenario multi 0) held_scenario =
     Inr (\<lparr>index = [1, 2, 3, 4], columns = [''A''],
            vals = [[Fin (1 / 10)], [Fin (- (1 / 10))], [Fin 0], [Fin (7 / 33)]]\<rparr>,
          \<lparr>s_index = [1, 2, 3, 4],
            s_vals = [Fin (1 / 10), Fin (- (1 / 10)), Fin 0, Fin (7 / 33)]\<rparr>,
          \<lparr>index = [1, 2, 3, 4], columns = [''A''],
            vals = [[Fin (1 / 10)], [Fin (- (1 / 100))], [Fin (- (1 / 100))], [Fin (1 / 5)]]\<rparr>,
          \<lparr>s_index = [1, 2, 3, 4],
            s_vals = [Fin (1 / 10), Fin (- (1 / 100)), Fin (- (1 / 100)), Fin (1 / 5)]\<rparr>,
          (0, 0))"
  by (simp add: returns_defs frame_defs bt_scenario_def prices_scenario_def held_scenario_def
      Let_def)

lemma scenario_returns_1:
  "calculate_returns (bt_scenario multi 1) flat_scenario =
     Inr (\<lparr>index = [0, 1, 2, 3, 4], columns = [''A''],
            vals = [[Fin 0], [Fin 0], [Fin 0], [Fin 0], [Fin 0]]\<rparr>,
          \<lparr>s_index = [0, 1, 2, 3, 4], s_vals = [Fin 0, Fin 0, Fin 0, Fin 0, Fin 0]\<rparr>,
          \<lparr>index = [0, 1, 2, 3, 4], columns = [''A''],
            vals = [[Fin 0], [Fin 0], [Fin 0], [Fin 0], [Fin 0]]\<rparr>,
          \<lparr>s_index = [0, 1, 2, 3, 4], s_vals = [Fin 0, Fin 0, Fin 0, Fin 0, Fin 0]\<rparr>,
          (0, 0))"
  by (simp add: returns_defs frame_defs bt_scenario_def prices_scenario_def flat_scenario_def
      Let_def)

lemma scenario_returns_7:
  "calculate_returns (bt_scenario multi 7) missing_scenario = Inl IndexError"
  by (simp add: returns_defs frame_defs bt_scenario_def prices_scenario_def
      missing_scenario_def Let_def)

text \<open>
  Claim C6 says that scenario 1 yields \<open>tradeCount = 1\<close>. In either mode, with
  \<open>special_start = 0\<close> (date 0 is visited and the strategy is asked) and with the
  default \<open>special_start = 1\<close> (date 0 is never visited), \<open>run\<close> reports no trade.
\<close>

theorem scenario_one_counterexample:
  "map_sum id trade_stats (run (bt_scenario False 0) always_one) = Inr (0, 0)
   \<and> map_sum id trade_stats (run (bt_scenario True 0) always_one) = Inr (0, 0)
   \<and> map_sum id trade_stats (run (bt_scenario False 1) always_one) = Inr (0, 0)
   \<and> map_sum id trade_stats (run (bt_scenario True 1) always_one) = Inr (0, 0)"
  by (simp add: run_def scenario_composition scenario_returns_0 scenario_returns_1
      del: One_nat_def)

text \<open>
  Claim C6, amended. In scenario 1 with \<open>special_start = 0\<close>, the portfolio returns
  that \<open>run\<close> reports are those of the dates 1 to 4 and equal the asset's percent
  changes at these dates, 1/10, -1/10, 0 and 7/33; the row of date 0, where the lagged
  position is still 0, is trimmed before the trade evaluation, the position is 1 in
  every row that is left, and the trade statistics are (0, 0). With the default
  \<open>special_start = 1\<close> date 0 is not visited, the position stays 0, every return is 0
  and the trade statistics are (0, 0).
\<close>

theorem scenario_one_amended:
  "run (bt_scenario multi 0) always_one =
     Inr \<lparr>res_portfolio_returns =
            \<lparr>s_index = [1, 2, 3, 4],
              s_vals = [Fin (1 / 10), Fin (- (1 / 10)), Fin 0, Fin (7 / 33)]\<rparr>,
          res_cumulative_returns =
            \<lparr>s_index = [1, 2, 3, 4],
              s_vals = [Fin (1 / 10), Fin (- (1 / 100)), Fin (- (1 / 100)), Fin (1 / 5)]\<rparr>,
          risk_free_rate = 0, trade_stats = (0, 0)\<rparr>
   \<and> vals (asset_returns_of prices_scenario)
        = [[Fin 0], [Fin (1 / 10)], [Fin (- (1 / 10))], [Fin 0], [Fin (7 / 33)]]
   \<and> run (bt_scenario multi 1) always_one =
     Inr \<lparr>res_portfolio_returns =
            \<lparr>s_index = [0, 1, 2, 3, 4], s_vals = [Fin 0, Fin 0, Fin 0, Fin 0, Fin 0]\<rparr>,
          res_cumulative_returns =
            \<lparr>s_index = [0, 1, 2, 3, 4], s_vals = [Fin 0, Fin 0, Fin 0, Fin 0, Fin 0]\<rparr>,
          risk_free_rate = 0, trade_stats = (0, 0)\<rparr>"
  by (simp add: run_def scenario_composition scenario_returns_0 scenario_returns_1
      asset_returns_of_def frame_defs prices_scenario_def del: One_nat_def)

text \<open>
  Claim C3 says that a \<open>special_start\<close> beyond the number of trading dates fails with
  \<open>InputShapeError\<close> before the composition matrix is built. In scenario 1 with
  \<open>special_start = 7\<close> and five trading dates, \<open>calculate_composition_matrix\<close>
  returns a matrix (all missing), and \<open>run\<close> fails afterwards with \<open>IndexError\<close>.
\<close>

theorem missing_shape_check_counterexample:
  "length (trading_dates_of (bt_scenario False 7)) = 5
   \<and> special_start (bt_scenario False 7) = 7
   \<and> calculate_composition_matrix (bt_scenario False 7) always_one = Inr missing_scenario
   \<and> run (bt_scenario False 7) always_one = Inl IndexError
   \<and> run (bt_scenario False 7) always_one \<noteq> Inl InputShapeError"
  by (simp add: run_def scenario_composition scenario_returns_7)
     (simp add: bt_scenario_def trading_dates_of_def index_intersection_def prices_scenario_def)


subsection \<open>A start beyond the trading dates\<close>

lemma assets_loop_no_dates:
  "length tds \<le> special_start bt \<Longrightarrow> assets_loop bt strat tds cols m = Inr m"
  by (induction cols arbitrary: m) simp_all

lemma composition_matrix_no_dates:
  assumes "length (trading_dates_of bt) \<le> special_start bt"
  shows "calculate_composition_matrix bt strat =
           Inr \<lparr>index = trading_dates_of bt, columns = columns (data bt),
                vals = replicate (length (trading_dates_of bt))
                         (replicate (length (columns (data bt))) NaN)\<rparr>"
  using assms by (simp add: calculate_composition_matrix_def Let_def assets_loop_no_dates)

lemma shift_positions_length: "length (vals (shift_positions cm)) = length (vals cm)"
  by (simp add: shift_positions_vals split: list.splits)

lemma normalize_positions_labels:
  "columns (normalize_positions sp) = columns sp" "index (normalize_positions sp) = index sp"
  by (simp_all add: normalize_positions_def df_fillna0_def df_map_def df_div_axis0_def)

lemma normalized_shape:
  "length (vals (normalize_positions (shift_positions cm))) = length (vals cm)"
  "columns (normalize_positions (shift_positions cm)) = columns cm"
  "index (normalize_positions (shift_positions cm)) = index cm"
  by (simp_all add: normalize_positions_vals shift_positions_length
      normalize_positions_labels shift_positions_labels)

lemma trimmed_window:
  "shifted_positions (trim_returns bt (compute_returns bt cm)) =
     (if special_start bt \<noteq> 1
      then df_iloc_from (special_start bt + 1) (normalize_positions (shift_positions cm))
      else normalize_positions (shift_positions cm))"
  by (simp add: trim_returns_def compute_returns_def Let_def)

lemma evaluate_trade_no_rows:
  assumes "vals sp = []" "columns sp \<noteq> []"
  shows "evaluate_trade bt sp = Inl IndexError"
proof -
  from assms(2) obtain a cols where "columns sp = a # cols" by (cases "columns sp") auto
  with assms(1) show ?thesis by (simp add: evaluate_trade_def evaluate_asset_def df_iloc0_def)
qed

lemma evaluate_trade_no_columns:
  "columns sp = [] \<Longrightarrow> evaluate_trade bt sp = Inr (0, 0)"
  by (simp add: evaluate_trade_def)

text \<open>
  Claim C3, amended. When \<open>special_start\<close> exceeds the number of trading dates,
  \<open>calculate_composition_matrix\<close> returns the matrix whose every entry is missing,
  without asking the strategy; if the price table has at least one asset column, \<open>run\<close>
  then fails with \<open>IndexError\<close>, raised by \<open>evaluate_trade\<close> on the window that has
  no row. A price table with no row makes the constructor fail with \<open>IndexError\<close>.
\<close>

theorem special_start_beyond_dates:
  "(length (trading_dates_of bt) < special_start bt
      \<longrightarrow> calculate_composition_matrix bt strat =
            Inr \<lparr>index = trading_dates_of bt, columns = columns (data bt),
                 vals = replicate (length (trading_dates_of bt))
                          (replicate (length (columns (data bt))) NaN)\<rparr>)
   \<and> (length (trading_dates_of bt) < special_start bt \<and> columns (data bt) \<noteq> []
      \<longrightarrow> run bt strat = Inl IndexError)
   \<and> (index df = []
      \<longrightarrow> init Calendar df multi start cost slip frequency = Inl IndexError)"
proof (intro conjI impI)
  assume "length (trading_dates_of bt) < special_start bt"
  then show "calculate_composition_matrix bt strat =
            Inr \<lparr>index = trading_dates_of bt, columns = columns (data bt),
                 vals = replicate (length (trading_dates_of bt))
                          (replicate (length (columns (data bt))) NaN)\<rparr>"
    by (simp add: composition_matrix_no_dates)
next
  assume h: "length (trading_dates_of bt) < special_start bt \<and> columns (data bt) \<noteq> []"
  let ?cm = "\<lparr>index = trading_dates_of bt, columns = columns (data bt),
                 vals = replicate (length (trading_dates_of bt))
                          (replicate (length (columns (data bt))) NaN)\<rparr>"
  let ?sp = "shifted_positions (trim_returns bt (compute_returns bt ?cm))"
  from h have cm: "calculate_composition_matrix bt strat = Inr ?cm"
    by (simp add: composition_matrix_no_dates)
  have "vals ?sp = []"
    using h normalized_shape(1) [of ?cm] by (auto simp: trimmed_window df_iloc_from_def)
  moreover have "columns ?sp \<noteq> []"
    using h by (simp add: trimmed_window df_iloc_from_def normalized_shape)
  ultimately have "evaluate_trade bt ?sp = Inl IndexError" by (rule evaluate_trade_no_rows)
  then have "calculate_returns bt ?cm = Inl IndexError"
    by (simp add: calculate_returns_def Let_def)
  with cm show "run bt strat = Inl IndexError" by (simp add: run_def)
next
  assume "index df = []"
  then show "init Calendar df multi start cost slip frequency = Inl IndexError"
    by (simp add: init_def)
qed

theorem special_start_beyond_dates_witness:
  "length (trading_dates_of (bt_scenario False 7)) < special_start (bt_scenario False 7)
   \<and> columns (data (bt_scenario False 7)) \<noteq> []
   \<and> run (bt_scenario False 7) always_one = Inl IndexError
   \<and> index \<lparr>index = [], columns = [''A''], vals = []\<rparr> = []
   \<and> init (\<lambda>f d e. \<lparr>all_dates = [], rebalancing_dates = []\<rparr>)
        \<lparr>index = [], columns = [''A''], vals = []\<rparr> False 1 0 0 ''monthly'' = Inl IndexError"
proof -
  have h: "length (trading_dates_of (bt_scenario False 7)) < special_start (bt_scenario False 7)
      \<and> columns (data (bt_scenario False 7)) \<noteq> []"
    by (simp add: bt_scenario_def trading_dates_of_def index_intersection_def
        prices_scenario_def)
  have e: "index \<lparr>index = [], columns = [''A''], vals = []\<rparr> = []" by simp
  note inst = special_start_beyond_dates [of "bt_scenario False 7" always_one
      "\<lparr>index = [], columns = [''A''], vals = []\<rparr>"
      "\<lambda>f d e. \<lparr>all_dates = [], rebalancing_dates = []\<rparr>" False 1 0 0 "''monthly''"]
  from inst [THEN conjunct2, THEN conjunct1, THEN mp, OF h]
    inst [THEN conjunct2, THEN conjunct2, THEN mp, OF e] h e
  show ?thesis by simp
qed

subsection \<open>The trimming\<close>

text \<open>
  Claim C4. \<open>calculate_returns\<close> drops the first \<open>special_start + 1\<close> rows (labels
  and cells) of the normalised lagged positions, the asset contributions, the portfolio
  returns and the two cumulative series exactly when \<open>special_start\<close> is not 1, and
  returns them as they are when it is 1; \<open>evaluate_trade\<close> receives the normalised
  lagged positions after this trimming, and its failure is the failure of
  \<open>calculate_returns\<close>.
\<close>

theorem trimming_precedes_trade_evaluation:
  "calculate_returns bt cm =
     (if special_start bt \<noteq> 1 then
        (case evaluate_trade bt
                (df_iloc_from (special_start bt + 1) (shifted_positions (compute_returns bt cm))) of
           Inl e \<Rightarrow> Inl e
         | Inr result_trade \<Rightarrow>
             Inr (df_iloc_from (special_start bt + 1) (asset_contributions (compute_returns bt cm)),
                  s_iloc_from (special_start bt + 1) (portfolio_returns (compute_returns bt cm)),
                  df_iloc_from (special_start bt + 1)
                    (cumulative_asset_returns (compute_returns bt cm)),
                  s_iloc_from (special_start bt + 1) (cumulative_returns (compute_returns bt cm)),
                  result_trade))
      else
        (case evaluate_trade bt (shifted_positions (compute_returns bt cm)) of
           Inl e \<Rightarrow> Inl e
         | Inr result_trade \<Rightarrow>
             Inr (asset_contributions (compute_returns bt cm),
                  portfolio_returns (compute_returns bt cm),
                  cumulative_asset_returns (compute_returns bt cm),
                  cumulative_returns (compute_returns bt cm),
                  result_trade)))
   \<and> shifted_positions (compute_returns bt cm) = normalize_positions (shift_positions cm)
   \<and> index (df_iloc_from k df) = drop k (index df)
   \<and> vals (df_iloc_from k df) = drop k (vals df)
   \<and> columns (df_iloc_from k df) = columns df
   \<and> s_index (s_iloc_from k s) = drop k (s_index s)
   \<and> s_vals (s_iloc_from k s) = drop k (s_vals s)"
proof (intro conjI)
  show "shifted_positions (compute_returns bt cm) = normalize_positions (shift_positions cm)"
    by (simp add: compute_returns_def Let_def)
next
  show "calculate_returns bt cm =
     (if special_start bt \<noteq> 1 then
        (case evaluate_trade bt
                (df_iloc_from (special_start bt + 1) (shifted_positions (compute_returns bt cm))) of
           Inl e \<Rightarrow> Inl e
         | Inr result_trade \<Rightarrow>
             Inr (df_iloc_from (special_start bt + 1) (asset_contributions (compute_returns bt cm)),
                  s_iloc_from (special_start bt + 1) (portfolio_returns (compute_returns bt cm)),
                  df_iloc_from (special_start bt + 1)
                    (cumulative_asset_returns (compute_returns bt cm)),
                  s_iloc_from (special_start bt + 1) (cumulative_returns (compute_returns bt cm)),
                  result_trade))
      else
        (case evaluate_trade bt (shifted_positions (compute_returns bt cm)) of
           Inl e \<Rightarrow> Inl e
         | Inr result_trade \<Rightarrow>
             Inr (asset_contributions (compute_returns bt cm),
                  portfolio_returns (compute_returns bt cm),
                  cumulative_asset_returns (compute_returns bt cm),
                  cumulative_returns (compute_returns bt cm),
                  result_trade)))"
    by (simp add: calculate_returns_def trim_returns_def Let_def del: One_nat_def
        split: sum.splits)
qed (simp_all add: df_iloc_from_def s_iloc_from_def)


theorem trimming_precedes_trade_evaluation_witness:
  "special_start (bt_scenario False 0) \<noteq> 1
   \<and> length (vals (shifted_positions (compute_returns (bt_scenario False 0) held_scenario))) = 5
   \<and> map_sum id (\<lambda>r. length (s_vals (fst (snd r))))
         (calculate_returns (bt_scenario False 0) held_scenario) = Inr 4
   \<and> evaluate_trade (bt_scenario False 0)
         (df_iloc_from (special_start (bt_scenario False 0) + 1)
            (shifted_positions (compute_returns (bt_scenario False 0) held_scenario)))
       = Inr (0, 0)"
proof -
  have s: "special_start (bt_scenario False 0) \<noteq> 1" by (simp add: bt_scenario_def)
  have n: "length (vals (shifted_positions (compute_returns (bt_scenario False 0) held_scenario))) = 5"
    by (simp add: compute_returns_def Let_def normalized_shape held_scenario_def)
  from trimming_precedes_trade_evaluation [THEN conjunct1, of "bt_scenario False 0" held_scenario]
    s scenario_returns_0 [of False]
  have "evaluate_trade (bt_scenario False 0)
         (df_iloc_from (special_start (bt_scenario False 0) + 1)
            (shifted_positions (compute_returns (bt_scenario False 0) held_scenario)))
       = Inr (0, 0)"
    by (simp split: sum.splits)
  with s n scenario_returns_0 [of False] show ?thesis by simp
qed

subsection \<open>Finite returns\<close>

lemma list_all_map2:
  assumes "list_all P xs" "list_all Q ys" "\<And>x y. P x \<Longrightarrow> Q y \<Longrightarrow> R (f x y)"
  shows "list_all R (map2 f xs ys)"
  using assms(1,2)
proof (induction xs arbitrary: ys)
  case Nil
  then show ?case by simp
next
  case (Cons x xs)
  then show ?case by (cases ys) (simp_all add: assms(3))
qed

lemma rows_map2:
  assumes "list_all (list_all P) xss" "list_all (list_all Q) yss"
    "\<And>x y. P x \<Longrightarrow> Q y \<Longrightarrow> R (f x y)"
  shows "list_all (list_all R) (map2 (map2 f) xss yss)"
  using assms(1,2)
proof (rule list_all_map2)
  fix xs ys assume "list_all P xs" "list_all Q ys"
  then show "list_all R (map2 f xs ys)" by (rule list_all_map2) (rule assms(3))
qed

lemma is_fin_ops:
  "is_fin x \<Longrightarrow> is_fin y \<Longrightarrow> is_fin (fl_add x y)"
  "is_fin x \<Longrightarrow> is_fin y \<Longrightarrow> is_fin (fl_sub x y)"
  "is_fin x \<Longrightarrow> is_fin y \<Longrightarrow> is_fin (fl_mul x y)"
  "is_fin x \<Longrightarrow> is_fin (fl_abs x)"
  "is_fin x \<Longrightarrow> x \<noteq> NaN"
  by (cases x; cases y; simp add: fl_sub_def)+

lemma is_fin_nansum: "list_all is_fin xs \<Longrightarrow> is_fin (nansum xs)"
  using finite_row_eq [of xs] by (auto simp: nansum_Fin)

text \<open>The asset returns of a table of positive or missing prices are finite.\<close>

lemma pct_change_cell:
  "price_ok c \<Longrightarrow> price_ok p \<Longrightarrow> is_fin (fillna0 (fl_sub (fl_div c p) (Fin 1)))"
  by (cases c; cases p; simp add: fl_sub_def)

lemma ffill_cell: "price_ok p \<Longrightarrow> price_ok x \<Longrightarrow> price_ok (if x = NaN then p else x)"
  by simp

lemma pct_change_rows_finite:
  assumes "list_all price_ok prev" "list_all (list_all price_ok) rows"
  shows "list_all (list_all is_fin) (map (map fillna0) (pct_change_rows prev rows))"
  using assms
proof (induction rows arbitrary: prev)
  case Nil
  then show ?case by simp
next
  case (Cons r rows)
  let ?cur = "map2 (\<lambda>p x. if x = NaN then p else x) prev r"
  from Cons.prems have r: "list_all price_ok r" and rows: "list_all (list_all price_ok) rows"
    by simp_all
  have cur: "list_all price_ok ?cur"
    by (rule list_all_map2 [OF Cons.prems(1) r]) simp
  have "list_all (\<lambda>z. is_fin (fillna0 z))
          (map2 (\<lambda>c p. fl_sub (fl_div c p) (Fin 1)) ?cur prev)"
    by (rule list_all_map2 [OF cur Cons.prems(1)]) (rule pct_change_cell)
  then have "list_all is_fin (map fillna0 (map2 (\<lambda>c p. fl_sub (fl_div c p) (Fin 1)) ?cur prev))"
    by (simp add: list.pred_map comp_def)
  with Cons.IH [OF cur rows] show ?case by (simp add: Let_def)
qed

lemma asset_returns_finite:
  "prices_ok prices \<Longrightarrow> finite_frame (asset_returns_of prices)"
  using pct_change_rows_finite [of "replicate (length (columns prices)) NaN" "vals prices"]
  by (simp add: prices_ok_def finite_frame_def asset_returns_of_def df_fillna0_def df_map_def
      pct_change_def list_all_iff)

lemma pct_change_rows_length [simp]: "length (pct_change_rows prev rows) = length rows"
  by (induction rows arbitrary: prev) (simp_all add: Let_def)

lemma asset_returns_labels:
  "index (asset_returns_of prices) = index prices"
  "columns (asset_returns_of prices) = columns prices"
  "length (vals (asset_returns_of prices)) = length (vals prices)"
  by (simp_all add: asset_returns_of_def df_fillna0_def df_map_def pct_change_def)

text \<open>The normalised positions are finite, whatever the composition matrix.\<close>

lemma normalized_finite: "finite_frame (normalize_positions (shift_positions cm))"
proof -
  have "\<And>r. r \<in> set (vals (shift_positions cm)) \<Longrightarrow> list_all is_fin (normalize_row r)"
    using normalize_row_props shift_positions_no_nan by blast
  then show ?thesis by (simp add: finite_frame_def normalize_positions_vals list_all_iff)
qed

text \<open>Operands with equal labels are combined cell by cell.\<close>

lemma df_multiply_same_labels:
  "index a = index b \<Longrightarrow> columns a = columns b \<Longrightarrow>
   df_multiply a b = \<lparr>index = index a, columns = columns a,
                        vals = map2 (map2 fl_mul) (vals a) (vals b)\<rparr>"
  by (simp add: df_multiply_def union_labels_def reindex_rows_def reindex_cols_def Let_def)

lemma s_sub_same_labels:
  "s_index a = s_index b \<Longrightarrow>
   s_sub a b = \<lparr>s_index = s_index a, s_vals = map2 fl_sub (s_vals a) (s_vals b)\<rparr>"
  by (simp add: s_sub_def union_labels_def s_reindex_def Let_def)

lemma finite_frame_multiply:
  assumes "finite_frame a" "finite_frame b" "index a = index b" "columns a = columns b"
  shows "finite_frame (df_multiply a b)"
proof -
  have "list_all (list_all is_fin) (map2 (map2 fl_mul) (vals a) (vals b))"
    using assms(1,2) unfolding finite_frame_def
    by (rule rows_map2) (simp add: is_fin_ops)
  then show ?thesis by (simp add: df_multiply_same_labels [OF assms(3,4)] finite_frame_def)
qed

lemma abs_sum_missing_or_finite:
  "list_all (\<lambda>x. x = NaN \<or> is_fin x) xs \<Longrightarrow> \<exists>s. 0 \<le> s \<and> nansum (map fl_abs xs) = Fin s"
proof (induction xs)
  case Nil
  then show ?case by simp
next
  case (Cons x xs)
  then obtain s where s: "0 \<le> s" "nansum (map fl_abs xs) = Fin s" by auto
  from Cons.prems have "x = NaN \<or> is_fin x" by simp
  then show ?case
  proof
    assume "x = NaN"
    with s show ?thesis by auto
  next
    assume "is_fin x"
    then obtain a where "x = Fin a" by (cases x) auto
    with s have "0 \<le> \<bar>a\<bar> + s" "nansum (map fl_abs (x # xs)) = Fin (\<bar>a\<bar> + s)" by simp_all
    then show ?thesis by blast
  qed
qed

lemma diff_cell: "is_fin x \<Longrightarrow> y = NaN \<or> is_fin y \<Longrightarrow> fl_sub x y = NaN \<or> is_fin (fl_sub x y)"
  by (cases x; cases y; simp add: fl_sub_def)

lemma df_shift_rows:
  assumes "list_all (list_all is_fin) (vals df)"
  shows "list_all (list_all (\<lambda>y. y = NaN \<or> is_fin y)) (vals (df_shift df))"
proof (cases "vals df")
  case Nil
  then show ?thesis by (simp add: df_shift_def)
next
  case (Cons r rs)
  have "list_all (\<lambda>y. y = NaN \<or> is_fin y) (replicate (length (columns df)) NaN)"
    by (simp add: list_all_iff)
  moreover have "list_all (list_all (\<lambda>y. y = NaN \<or> is_fin y)) (butlast (r # rs))"
    using assms Cons by (auto simp: list_all_iff dest: in_set_butlastD)
  ultimately show ?thesis using Cons by (simp add: df_shift_def del: butlast.simps)
qed

lemma turnover_rows:
  assumes "finite_frame sp"
  shows "list_all (\<lambda>x. \<exists>s. 0 \<le> s \<and> x = Fin s) (s_vals (turnover sp))"
proof -
  have "list_all (list_all (\<lambda>x. x = NaN \<or> is_fin x))
          (map2 (map2 fl_sub) (vals sp) (vals (df_shift sp)))"
    using assms [unfolded finite_frame_def] df_shift_rows [OF assms [unfolded finite_frame_def]]
    by (rule rows_map2) (rule diff_cell)
  then show ?thesis
    using abs_sum_missing_or_finite
    by (simp add: turnover_def df_sum_axis1_def df_abs_def df_map_def df_diff_def
        list.pred_map comp_def list_all_iff)
qed

lemma turnover_labels:
  "s_index (turnover sp) = index sp"
  "length (s_vals (turnover sp)) = length (vals sp)"
  by (simp_all add: turnover_def df_sum_axis1_def df_abs_def df_map_def df_diff_def df_shift_def
      split: list.splits)

text \<open>The series of \<open>calculate_returns\<close> when the composition matrix has the labels of the price table.\<close>

lemma costs_turnover:
  "calculate_transaction_costs bt sp = s_map (\<lambda>x. fl_mul x (Fin (transaction_cost bt))) (turnover sp)"
  "calculate_slippage_costs bt sp = s_map (\<lambda>x. fl_mul x (Fin (slippage bt))) (turnover sp)"
  by (simp_all add: calculate_transaction_costs_def calculate_slippage_costs_def turnover_def)

lemma contributions_same_labels:
  assumes "index cm = index (data bt)" "columns cm = columns (data bt)"
  shows "asset_contributions (compute_returns bt cm) =
           \<lparr>index = index cm, columns = columns cm,
            vals = map2 (map2 fl_mul) (vals (normalize_positions (shift_positions cm)))
                     (vals (asset_returns_of (data bt)))\<rparr>"
  using assms
  by (simp add: compute_returns_def Let_def df_multiply_same_labels normalized_shape
      asset_returns_labels)

lemma portfolio_same_labels:
  assumes "index cm = index (data bt)" "columns cm = columns (data bt)"
  shows "portfolio_returns (compute_returns bt cm) =
           \<lparr>s_index = index cm,
            s_vals = map2 fl_sub
              (map2 fl_sub
                 (map nansum (vals (asset_contributions (compute_returns bt cm))))
                 (map (\<lambda>x. fl_mul x (Fin (transaction_cost bt)))
                    (s_vals (turnover (normalize_positions (shift_positions cm))))))
              (map (\<lambda>x. fl_mul x (Fin (slippage bt)))
                 (s_vals (turnover (normalize_positions (shift_positions cm)))))\<rparr>"
proof -
  let ?sp = "normalize_positions (shift_positions cm)"
  let ?c = "df_multiply ?sp (asset_returns_of (data bt))"
  have c: "asset_contributions (compute_returns bt cm) = ?c"
    by (simp add: compute_returns_def Let_def)
  have ic: "index ?c = index cm"
    using assms by (simp add: df_multiply_same_labels normalized_shape asset_returns_labels)
  have "portfolio_returns (compute_returns bt cm) =
          s_sub (s_sub (df_sum_axis1 ?c) (calculate_transaction_costs bt ?sp))
            (calculate_slippage_costs bt ?sp)"
    by (simp add: compute_returns_def Let_def)
  also have "s_sub (df_sum_axis1 ?c) (calculate_transaction_costs bt ?sp) =
      \<lparr>s_index = index cm,
       s_vals = map2 fl_sub (map nansum (vals ?c))
          (map (\<lambda>x. fl_mul x (Fin (transaction_cost bt))) (s_vals (turnover ?sp)))\<rparr>"
    by (subst s_sub_same_labels)
      (simp_all add: df_sum_axis1_def ic costs_turnover s_map_def turnover_labels normalized_shape)
  also have "s_sub \<dots> (calculate_slippage_costs bt ?sp) =
      \<lparr>s_index = index cm,
       s_vals = map2 fl_sub
          (map2 fl_sub (map nansum (vals ?c))
             (map (\<lambda>x. fl_mul x (Fin (transaction_cost bt))) (s_vals (turnover ?sp))))
          (map (\<lambda>x. fl_mul x (Fin (slippage bt))) (s_vals (turnover ?sp)))\<rparr>"
    by (subst s_sub_same_labels)
      (simp_all add: costs_turnover s_map_def turnover_labels normalized_shape)
  finally show ?thesis by (simp add: c)
qed

lemma contributions_finite:
  assumes "index cm = index (data bt)" "columns cm = columns (data bt)" "prices_ok (data bt)"
  shows "finite_frame (asset_contributions (compute_returns bt cm))"
proof -
  have "finite_frame (df_multiply (normalize_positions (shift_positions cm))
          (asset_returns_of (data bt)))"
    using assms
    by (intro finite_frame_multiply normalized_finite asset_returns_finite)
      (simp_all add: normalized_shape asset_returns_labels)
  then show ?thesis by (simp add: compute_returns_def Let_def)
qed

lemma contributions_length:
  assumes "index cm = index (data bt)" "columns cm = columns (data bt)"
    "wf_frame cm" "wf_frame (data bt)"
  shows "length (vals (asset_contributions (compute_returns bt cm))) = length (index cm)"
  using assms
  by (simp add: contributions_same_labels normalized_shape asset_returns_labels wf_frame_def)

text \<open>The portfolio return of one date, as a real number.\<close>

lemma portfolio_return_at:
  assumes "index cm = index (data bt)" "columns cm = columns (data bt)"
    "wf_frame cm" "wf_frame (data bt)" "prices_ok (data bt)" "t < length (index cm)"
  shows "\<exists>g s. 0 \<le> s
           \<and> s_vals (turnover (normalize_positions (shift_positions cm))) ! t = Fin s
           \<and> (\<forall>c. s_vals (portfolio_returns (compute_returns (bt\<lparr>transaction_cost := c\<rparr>) cm)) ! t
                  = Fin (g - s * c - s * slippage bt))"
proof -
  let ?sp = "normalize_positions (shift_positions cm)"
  let ?T = "s_vals (turnover ?sp)"
  let ?C = "vals (asset_contributions (compute_returns bt cm))"
  have lenT: "length ?T = length (index cm)"
    using assms(3) by (simp add: turnover_labels normalized_shape wf_frame_def)
  have lenC: "length ?C = length (index cm)"
    by (rule contributions_length [OF assms(1-4)])
  from turnover_rows [OF normalized_finite, of cm] assms(6) lenT
  obtain s where s: "0 \<le> s" "?T ! t = Fin s" by (auto simp: list_all_length)
  from contributions_finite [OF assms(1,2,5)] assms(6) lenC
  have "list_all is_fin (?C ! t)" by (simp add: finite_frame_def list_all_length)
  then obtain g where g: "nansum (?C ! t) = Fin g"
    using is_fin_nansum [of "?C ! t"] by (cases "nansum (?C ! t)") auto
  have "s_vals (portfolio_returns (compute_returns (bt\<lparr>transaction_cost := c\<rparr>) cm)) ! t
          = Fin (g - s * c - s * slippage bt)" for c
  proof -
    let ?bt = "bt\<lparr>transaction_cost := c\<rparr>"
    have same: "asset_contributions (compute_returns ?bt cm)
        = asset_contributions (compute_returns bt cm)"
      by (simp add: compute_returns_def Let_def)
    have "index cm = index (data ?bt)" "columns cm = columns (data ?bt)"
      using assms(1,2) by simp_all
    from portfolio_same_labels [OF this] assms(6) lenT lenC s g
    show ?thesis by (simp add: same fl_sub_def)
  qed
  with s show ?thesis by blast
qed


lemma switch_positions:
  "normalize_positions (shift_positions cm_switch) =
     \<lparr>index = [0, 1, 2], columns = [''A'', ''B''],
      vals = [[Fin 0, Fin 0], [Fin 1, Fin 0], [Fin 0, Fin 1]]\<rparr>"
  by (simp add: cm_switch_def returns_defs frame_defs)

lemma switch_turnover:
  "s_vals (turnover (normalize_positions (shift_positions cm_switch))) = [Fin 0, Fin 1, Fin 2]"
  by (simp add: switch_positions turnover_def frame_defs)

lemma switch_returns:
  "s_vals (portfolio_returns (compute_returns ((bt_of prices_two k)\<lparr>transaction_cost := c\<rparr>)
      cm_switch)) = [Fin 0, Fin (1 / 10 - c), Fin (1 / 10 - 2 * c)]"
  by (simp add: compute_returns_def Let_def switch_positions)
     (simp add: returns_defs frame_defs bt_of_def prices_two_def)


text \<open>Running products of finite numbers are finite, and one per row.\<close>

lemma cumprod_rows_length [simp]: "length (cumprod_rows acc rows) = length rows"
  by (induction rows arbitrary: acc) simp_all

lemma cumprod_from_length [simp]: "length (cumprod_from acc xs) = length xs"
  by (induction xs arbitrary: acc) simp_all

lemma cumprod_rows_finite:
  assumes "list_all is_fin acc" "list_all (list_all is_fin) rows"
  shows "list_all (list_all is_fin) (cumprod_rows acc rows)"
  using assms
proof (induction rows arbitrary: acc)
  case Nil
  then show ?case by simp
next
  case (Cons r rows)
  from Cons.prems have r: "list_all is_fin r" and rows: "list_all (list_all is_fin) rows"
    by simp_all
  have out: "list_all is_fin (map2 (\<lambda>a x. if x = NaN then NaN else fl_mul a x) acc r)"
    by (rule list_all_map2 [OF Cons.prems(1) r]) (auto simp: is_fin_ops)
  have "list_all is_fin (map2 (\<lambda>a x. if x = NaN then a else fl_mul a x) acc r)"
    by (rule list_all_map2 [OF Cons.prems(1) r]) (auto simp: is_fin_ops)
  from Cons.IH [OF this rows] out show ?case by simp
qed

lemma cumprod_from_finite:
  "is_fin acc \<Longrightarrow> list_all is_fin xs \<Longrightarrow> list_all is_fin (cumprod_from acc xs)"
  by (induction xs arbitrary: acc) (auto simp: is_fin_ops)

lemma finite_rows_map:
  "list_all (list_all is_fin) rows \<Longrightarrow> (\<And>x. is_fin x \<Longrightarrow> is_fin (f x)) \<Longrightarrow>
   list_all (list_all is_fin) (map (map f) rows)"
  by (simp add: list_all_iff)

lemma portfolio_finite:
  assumes "index cm = index (data bt)" "columns cm = columns (data bt)" "prices_ok (data bt)"
  shows "finite_series (portfolio_returns (compute_returns bt cm))"
proof -
  let ?T = "s_vals (turnover (normalize_positions (shift_positions cm)))"
  have T: "list_all (\<lambda>x. \<exists>s. 0 \<le> s \<and> x = Fin s) ?T"
    by (rule turnover_rows [OF normalized_finite])
  have cost: "list_all is_fin (map (\<lambda>x. fl_mul x (Fin c)) ?T)" for c
    using T by (auto simp: list_all_iff)
  have gross: "list_all is_fin (map nansum (vals (asset_contributions (compute_returns bt cm))))"
    using contributions_finite [OF assms] by (simp add: finite_frame_def list_all_iff is_fin_nansum)
  have "list_all is_fin
          (map2 fl_sub
             (map2 fl_sub (map nansum (vals (asset_contributions (compute_returns bt cm))))
                (map (\<lambda>x. fl_mul x (Fin (transaction_cost bt))) ?T))
             (map (\<lambda>x. fl_mul x (Fin (slippage bt))) ?T))"
    by (intro list_all_map2 [where P = is_fin and Q = is_fin] gross cost) (simp_all add: is_fin_ops)
  then show ?thesis by (simp add: finite_series_def portfolio_same_labels [OF assms(1,2)])
qed

lemma portfolio_length:
  assumes "index cm = index (data bt)" "columns cm = columns (data bt)"
    "wf_frame cm" "wf_frame (data bt)"
  shows "length (s_vals (portfolio_returns (compute_returns bt cm))) = length (index cm)"
  using assms(3) contributions_length [OF assms]
  by (simp add: portfolio_same_labels [OF assms(1,2)] turnover_labels normalized_shape wf_frame_def)

lemma cumulative_defs:
  "cumulative_asset_returns (compute_returns bt cm) =
     df_map (\<lambda>x. fl_sub x (Fin 1))
       (df_cumprod (df_map (fl_add (Fin 1)) (asset_contributions (compute_returns bt cm))))"
  "cumulative_returns (compute_returns bt cm) =
     s_map (\<lambda>x. fl_sub x (Fin 1))
       (s_cumprod (s_map (fl_add (Fin 1)) (portfolio_returns (compute_returns bt cm))))"
  by (simp_all add: compute_returns_def Let_def)

lemma cumulative_shape:
  "index (cumulative_asset_returns (compute_returns bt cm))
     = index (asset_contributions (compute_returns bt cm))"
  "length (vals (cumulative_asset_returns (compute_returns bt cm)))
     = length (vals (asset_contributions (compute_returns bt cm)))"
  "s_index (cumulative_returns (compute_returns bt cm))
     = s_index (portfolio_returns (compute_returns bt cm))"
  "length (s_vals (cumulative_returns (compute_returns bt cm)))
     = length (s_vals (portfolio_returns (compute_returns bt cm)))"
  by (simp_all add: cumulative_defs df_map_def df_cumprod_def s_map_def s_cumprod_def)

lemma cumulative_finite:
  assumes "finite_frame (asset_contributions (compute_returns bt cm))"
    "finite_series (portfolio_returns (compute_returns bt cm))"
  shows "finite_frame (cumulative_asset_returns (compute_returns bt cm))"
    "finite_series (cumulative_returns (compute_returns bt cm))"
proof -
  let ?c = "asset_contributions (compute_returns bt cm)"
  have "list_all (list_all is_fin) (map (map (fl_add (Fin 1))) (vals ?c))"
    using assms(1) by (intro finite_rows_map) (simp_all add: finite_frame_def is_fin_ops)
  then have "list_all (list_all is_fin)
      (cumprod_rows (replicate (length (columns ?c)) (Fin 1)) (map (map (fl_add (Fin 1))) (vals ?c)))"
    by (intro cumprod_rows_finite) (simp_all add: list_all_iff)
  then have "list_all (list_all is_fin) (map (map (\<lambda>x. fl_sub x (Fin 1)))
      (cumprod_rows (replicate (length (columns ?c)) (Fin 1)) (map (map (fl_add (Fin 1))) (vals ?c))))"
    by (intro finite_rows_map) (simp_all add: is_fin_ops)
  then show "finite_frame (cumulative_asset_returns (compute_returns bt cm))"
    by (simp add: cumulative_defs finite_frame_def df_map_def df_cumprod_def)
next
  let ?p = "s_vals (portfolio_returns (compute_returns bt cm))"
  have "list_all is_fin (map (fl_add (Fin 1)) ?p)"
    using assms(2) by (simp add: finite_series_def list_all_iff is_fin_ops)
  then have "list_all is_fin (cumprod_from (Fin 1) (map (fl_add (Fin 1)) ?p))"
    by (intro cumprod_from_finite) simp_all
  then have "list_all is_fin (map (\<lambda>x. fl_sub x (Fin 1))
      (cumprod_from (Fin 1) (map (fl_add (Fin 1)) ?p)))"
    by (simp add: list_all_iff is_fin_ops)
  then show "finite_series (cumulative_returns (compute_returns bt cm))"
    by (simp add: cumulative_defs finite_series_def s_map_def s_cumprod_def)
qed

lemma list_all_drop: "list_all P xs \<Longrightarrow> list_all P (drop k xs)"
  by (auto simp: list_all_iff dest: in_set_dropD)

lemma finite_iloc:
  "finite_frame df \<Longrightarrow> finite_frame (df_iloc_from k df)"
  "finite_series s \<Longrightarrow> finite_series (s_iloc_from k s)"
  by (simp_all add: finite_frame_def finite_series_def df_iloc_from_def s_iloc_from_def
      list_all_drop)

lemma untrimmed_aligned_finite:
  assumes "wf_frame (data bt)" "wf_frame cm"
    "index cm = index (data bt)" "columns cm = columns (data bt)" "prices_ok (data bt)"
  shows "aligned_finite (index (data bt)) (compute_returns bt cm)"
proof -
  note c = contributions_finite [OF assms(3,4,5)]
  note p = portfolio_finite [OF assms(3,4,5)]
  have sp: "shifted_positions (compute_returns bt cm) = normalize_positions (shift_positions cm)"
    by (simp add: compute_returns_def Let_def)
  have "length (vals cm) = length (index cm)" using assms(2) by (simp add: wf_frame_def)
  with assms(3) c p cumulative_finite [OF c p]
    contributions_length [OF assms(3,4,2,1)] portfolio_length [OF assms(3,4,2,1)]
    contributions_same_labels [OF assms(3,4)] portfolio_same_labels [OF assms(3,4)]
  show ?thesis
    by (simp add: aligned_finite_def cumulative_shape sp normalized_shape normalized_finite)
qed

lemma trimmed_aligned_finite:
  "aligned_finite idx r \<Longrightarrow>
   aligned_finite (if special_start bt \<noteq> 1 then drop (special_start bt + 1) idx else idx)
     (trim_returns bt r)"
  by (simp add: aligned_finite_def trim_returns_def df_iloc_from_def s_iloc_from_def
      finite_frame_def finite_series_def list_all_drop del: One_nat_def)




end
